theory Spec2Isabelle
  imports Main
begin

section \<open>JavaScript values\<close>

text \<open>
  The two Apps Script files handle values that come out of \<open>JSON.parse\<close>, values read
  from the spreadsheet and the \<open>Date\<close> made by \<open>new Date()\<close>. A number is kept as the
  text \<open>Number.prototype.toString\<close> prints for it (\<open>''0''\<close> for both zeros,
  \<open>''1999''\<close>, \<open>''1.5''\<close>, \<open>''NaN''\<close>): the scripts never calculate with a number, they
  only test its truthiness and concatenate it to strings. A string is the list of
  the bytes of its UTF-8 encoding. An object is the list of its own properties, and a
  \<open>Date\<close> is its time value in milliseconds.
\<close>

datatype jsval =
    JUndefined
  | JNull
  | JBool bool
  | JNum string
  | JStr string
  | JDate nat
  | JArr "jsval list"
  | JObj "(string \<times> jsval) list"

text \<open>
  Exceptions. \<open>Error\<close> is what the scripts throw themselves with \<open>new Error(msg)\<close>;
  \<open>TypeError\<close> and \<open>SyntaxError\<close> are raised by the engine, with a message text
  that the engine chooses. The services of the platform raise any of them.
\<close>

datatype exn = Error string | TypeError string | SyntaxError string

fun message :: "exn \<Rightarrow> string" where
  "message (Error m) = m"
| "message (TypeError m) = m"
| "message (SyntaxError m) = m"

definition and_then :: "exn + 'a \<Rightarrow> ('a \<Rightarrow> exn + 'b) \<Rightarrow> exn + 'b" where
  "and_then m f = (case m of Inl e \<Rightarrow> Inl e | Inr x \<Rightarrow> f x)"

definition dq :: char where
  "dq = CHR 0x22"

definition sq :: char where
  "sq = CHR 0x27"

text \<open>Truthiness (\<open>ToBoolean\<close>) and the operator \<open>a || b\<close>.\<close>

fun truthy :: "jsval \<Rightarrow> bool" where
  "truthy JUndefined = False"
| "truthy JNull = False"
| "truthy (JBool b) = b"
| "truthy (JNum s) = (s \<noteq> ''0'' \<and> s \<noteq> ''NaN'')"
| "truthy (JStr s) = (s \<noteq> [])"
| "truthy (JDate t) = True"
| "truthy (JArr xs) = True"
| "truthy (JObj ps) = True"

definition js_or :: "jsval \<Rightarrow> jsval \<Rightarrow> jsval" where
  "js_or a b = (if truthy a then a else b)"

text \<open>
  Reading a property \<open>v.k\<close>. The scripts read only the keys \<open>postData\<close>,
  \<open>contents\<close>, \<open>action\<close>, \<open>photo1Base64\<close>, \<open>photo2Base64\<close>, \<open>extractedData\<close>,
  the field names of a card record and \<open>name\<close>, \<open>role\<close>, \<open>contact\<close>; none of them
  is a property of \<open>Object.prototype\<close>, \<open>Array.prototype\<close>, \<open>String.prototype\<close>,
  \<open>Number.prototype\<close>, \<open>Boolean.prototype\<close> or \<open>Date.prototype\<close>, so a value
  other than an object has none of them. \<open>read_prop\<close> reads from a value already known
  not to be \<open>undefined\<close> or \<open>null\<close>; \<open>get\<close> is the read that raises on those two.
\<close>

fun read_prop :: "jsval \<Rightarrow> string \<Rightarrow> jsval" where
  "read_prop (JObj ps) k = (case map_of ps k of None \<Rightarrow> JUndefined | Some v \<Rightarrow> v)"
| "read_prop v k = JUndefined"

definition get :: "jsval \<Rightarrow> string \<Rightarrow> exn + jsval" where
  "get v k =
     (if v = JUndefined
      then Inl (TypeError (''Cannot read properties of undefined (reading '' @ [sq] @ k @ [sq] @ '')''))
      else if v = JNull
      then Inl (TypeError (''Cannot read properties of null (reading '' @ [sq] @ k @ [sq] @ '')''))
      else Inr (read_prop v k))"

text \<open>Assignment \<open>obj[k] = v\<close> on a plain object: an existing key keeps its place.\<close>

fun set_prop :: "(string \<times> jsval) list \<Rightarrow> string \<Rightarrow> jsval \<Rightarrow> (string \<times> jsval) list" where
  "set_prop [] k v = [(k, v)]"
| "set_prop ((k', v') # ps) k v = (if k' = k then (k, v) # ps else (k', v') # set_prop ps k v)"

text \<open>Indexing an array, \<open>xs[i]\<close>: \<open>undefined\<close> past the end.\<close>

definition js_nth :: "jsval list \<Rightarrow> nat \<Rightarrow> jsval" where
  "js_nth xs i = (if i < length xs then xs ! i else JUndefined)"

text \<open>\<open>Array.prototype.join\<close> on strings.\<close>

fun join :: "string \<Rightarrow> string list \<Rightarrow> string" where
  "join sep [] = []"
| "join sep [s] = s"
| "join sep (s # t # ss) = s @ sep @ join sep (t # ss)"

text \<open>Decimal text of a non-negative integer, as \<open>getTime()\<close> is printed.\<close>

definition digit_char :: "nat \<Rightarrow> char" where
  "digit_char d = ''0123456789'' ! d"

fun show_nat :: "nat \<Rightarrow> string" where
  "show_nat n = (if n < 10 then [digit_char n] else show_nat (n div 10) @ [digit_char (n mod 10)])"

declare show_nat.simps [simp del]

text \<open>
  \<open>s.replace(/"/g, '""')\<close>: every double quote is replaced by two. Called on a value
  that is not a string, \<open>replace\<close> is not a function; the message names the
  expression it was called on. The scripts call it on truthy values only.
\<close>

definition replace_quotes :: "string \<Rightarrow> string" where
  "replace_quotes s = concat (map (\<lambda>c. if c = dq then [dq, dq] else [c]) s)"

definition js_replace_quotes :: "string \<Rightarrow> jsval \<Rightarrow> exn + string" where
  "js_replace_quotes expr v =
     (case v of JStr s \<Rightarrow> Inr (replace_quotes s)
      | _ \<Rightarrow> Inl (TypeError (expr @ ''.replace is not a function'')))"

text \<open>
  \<open>s.trim()\<close> removes white space and line terminators from both ends. The table
  holds the UTF-8 encodings of U+0009..U+000D, U+0020, U+00A0, U+1680,
  U+2000..U+200A, U+2028, U+2029, U+202F, U+205F, U+3000 and U+FEFF.
\<close>

definition ws_seqs :: "string list" where
  "ws_seqs =
     [[CHR 0x09], [CHR 0x0A], [CHR 0x0B], [CHR 0x0C], [CHR 0x0D], [CHR 0x20],
      [CHR 0xC2, CHR 0xA0],
      [CHR 0xE1, CHR 0x9A, CHR 0x80],
      [CHR 0xE2, CHR 0x80, CHR 0x80], [CHR 0xE2, CHR 0x80, CHR 0x81],
      [CHR 0xE2, CHR 0x80, CHR 0x82], [CHR 0xE2, CHR 0x80, CHR 0x83],
      [CHR 0xE2, CHR 0x80, CHR 0x84], [CHR 0xE2, CHR 0x80, CHR 0x85],
      [CHR 0xE2, CHR 0x80, CHR 0x86], [CHR 0xE2, CHR 0x80, CHR 0x87],
      [CHR 0xE2, CHR 0x80, CHR 0x88], [CHR 0xE2, CHR 0x80, CHR 0x89],
      [CHR 0xE2, CHR 0x80, CHR 0x8A],
      [CHR 0xE2, CHR 0x80, CHR 0xA8], [CHR 0xE2, CHR 0x80, CHR 0xA9],
      [CHR 0xE2, CHR 0x80, CHR 0xAF],
      [CHR 0xE2, CHR 0x81, CHR 0x9F],
      [CHR 0xE3, CHR 0x80, CHR 0x80],
      [CHR 0xEF, CHR 0xBB, CHR 0xBF]]"

definition ws_len :: "string list \<Rightarrow> string \<Rightarrow> nat" where
  "ws_len seqs s =
     (case find (\<lambda>p. take (length p) s = p) seqs of None \<Rightarrow> 0 | Some p \<Rightarrow> length p)"

fun strip :: "string list \<Rightarrow> string \<Rightarrow> string" where
  "strip seqs [] = []"
| "strip seqs (c # cs) =
     (if ws_len seqs (c # cs) = 0 then c # cs
      else strip seqs (drop (ws_len seqs (c # cs) - 1) cs))"

definition trim :: "string \<Rightarrow> string" where
  "trim s = rev (strip (map rev ws_seqs) (rev (strip ws_seqs s)))"

definition js_trim :: "string \<Rightarrow> jsval \<Rightarrow> exn + string" where
  "js_trim expr v =
     (case v of JStr s \<Rightarrow> Inr (trim s)
      | _ \<Rightarrow> Inl (TypeError (expr @ ''.trim is not a function'')))"

section \<open>The platform\<close>

text \<open>
  What the scripts call but do not define is a parameter: \<open>new Date()\<close>,
  \<open>Date.prototype.toString\<close>, \<open>JSON.parse\<close>, \<open>JSON.stringify\<close>,
  \<open>UrlFetchApp.fetch\<close> (the response code and text, or an exception),
  \<open>Utilities.base64Decode\<close>, \<open>Folder.createFile\<close> (the URL of the new file, or
  an exception), an exception of \<open>Sheet.appendRow\<close>, and \<open>Range.getValues\<close> and
  \<open>Range.getFormulas\<close> of the data range of a sheet.
\<close>

record blob =
  blob_bytes :: string
  blob_type :: string
  blob_name :: string

record env =
  now :: nat
  date_toString :: "nat \<Rightarrow> string"
  JSON_parse :: "string \<Rightarrow> exn + jsval"
  JSON_stringify :: "jsval \<Rightarrow> string"
  fetch :: "string \<Rightarrow> jsval \<Rightarrow> exn + (nat \<times> string)"
  base64Decode :: "jsval \<Rightarrow> exn + string"
  createFile :: "blob \<Rightarrow> exn + string"
  appendRow_fault :: "jsval list \<Rightarrow> exn option"
  getValues :: "jsval list list \<Rightarrow> jsval list list"
  getFormulas :: "jsval list list \<Rightarrow> string list list"

text \<open>
  The state the scripts change: the rows of each sheet, by spreadsheet id and sheet
  name, as they were handed to \<open>appendRow\<close>, and the files of each Drive folder.
  \<open>spreadsheet_fault\<close> and \<open>folder_fault\<close> are the exceptions of
  \<open>SpreadsheetApp.openById\<close> and \<open>DriveApp.getFolderById\<close>.
\<close>

record world =
  spreadsheet_fault :: "string \<Rightarrow> exn option"
  sheets :: "string \<Rightarrow> string \<Rightarrow> jsval list list option"
  folder_fault :: "string \<Rightarrow> exn option"
  files :: "string \<Rightarrow> blob list"

type_synonym 'a action = "world \<Rightarrow> (exn + 'a) \<times> world"

definition ret :: "'a \<Rightarrow> 'a action" where
  "ret x w = (Inr x, w)"

definition throw :: "exn \<Rightarrow> 'a action" where
  "throw e w = (Inl e, w)"

definition lift :: "exn + 'a \<Rightarrow> 'a action" where
  "lift r w = (r, w)"

definition then_do :: "'a action \<Rightarrow> ('a \<Rightarrow> 'b action) \<Rightarrow> 'b action" where
  "then_do m f w = (case m w of (Inl e, w') \<Rightarrow> (Inl e, w') | (Inr x, w') \<Rightarrow> f x w')"

definition try_catch :: "'a action \<Rightarrow> (exn \<Rightarrow> 'a action) \<Rightarrow> 'a action" where
  "try_catch m h w = (case m w of (Inl e, w') \<Rightarrow> h e w' | (Inr x, w') \<Rightarrow> (Inr x, w'))"

subsection \<open>Conversion to a string\<close>

text \<open>
  \<open>ToString\<close>, as string concatenation and property keys apply it. An array is
  joined with commas, \<open>undefined\<close> and \<open>null\<close> elements printing as nothing. A plain
  object prints as \<open>[object Object]\<close>, unless it has an own property \<open>toString\<close>:
  a parsed value is never callable, so the conversion raises.
\<close>

fun to_str :: "env \<Rightarrow> jsval \<Rightarrow> exn + string"
  and to_strs :: "env \<Rightarrow> jsval list \<Rightarrow> exn + string list" where
  "to_str env JUndefined = Inr ''undefined''"
| "to_str env JNull = Inr ''null''"
| "to_str env (JBool b) = Inr (if b then ''true'' else ''false'')"
| "to_str env (JNum s) = Inr s"
| "to_str env (JStr s) = Inr s"
| "to_str env (JDate t) = Inr (date_toString env t)"
| "to_str env (JArr xs) = and_then (to_strs env xs) (\<lambda>ss. Inr (join '','' ss))"
| "to_str env (JObj ps) =
     (if ''toString'' \<in> set (map fst ps)
      then Inl (TypeError ''Cannot convert object to primitive value'')
      else Inr ''[object Object]'')"
| "to_strs env [] = Inr []"
| "to_strs env (x # xs) =
     and_then (if x = JUndefined \<or> x = JNull then Inr [] else to_str env x) (\<lambda>s.
     and_then (to_strs env xs) (\<lambda>ss. Inr (s # ss)))"

section \<open>The scripts\<close>

definition SHEET_ID :: string where
  "SHEET_ID = ''1c3v7DcBqfMK8yzPyMs3StwNj7bg7yc5gSnEsHnmuBlg''"

definition SHEET_ID_legacy :: string where
  "SHEET_ID_legacy = ''1n5EnD8dMtFsbdDlIQcYt8F4QJ5rngTHMOx5hNvjgr5s''"

definition FOLDER_ID :: string where
  "FOLDER_ID = ''1zggOUpg0SfMdi5LAXIfIWqZcBGMGHmMz''"

definition SHEET_NAME :: string where
  "SHEET_NAME = ''Ai Card''"


subsection \<open>extractData\<close>


subsection \<open>saveData: sheet, folder and images\<close>

text \<open>
  \<open>SpreadsheetApp.openById(id).getSheetByName(SHEET_NAME)\<close>: an exception, or the
  sheet, or \<open>null\<close> (here \<open>None\<close>).
\<close>

definition getSheetByName :: "string \<Rightarrow> world \<Rightarrow> exn + jsval list list option" where
  "getSheetByName sid w =
     (case spreadsheet_fault w sid of Some e \<Rightarrow> Inl e | None \<Rightarrow> Inr (sheets w sid SHEET_NAME))"

definition open_sheet :: "string \<Rightarrow> unit action" where
  "open_sheet sid =
     try_catch
       (then_do (\<lambda>w. (getSheetByName sid w, w)) (\<lambda>sheet.
          if sheet = None
          then throw (Error (''Sheet with name '' @ [sq] @ SHEET_NAME @ [sq] @ '' not found.''))
          else ret ()))
       (\<lambda>e. throw (Error (''FAILED to access Spreadsheet. Check SHEET_ID or Sheet Name. Details: ''
                            @ message e)))"

definition open_folder :: "unit action" where
  "open_folder =
     try_catch
       (\<lambda>w. (case folder_fault w FOLDER_ID of Some e \<Rightarrow> Inl e | None \<Rightarrow> Inr (), w))
       (\<lambda>e. throw (Error (''FAILED to access Drive Folder. Check FOLDER_ID. Details: ''
                            @ message e)))"

text \<open>
  The body of both \<open>try\<close> blocks that store an image: decode, make the blob named
  after the slot and the time stamp, create the file in the folder, take its URL.
\<close>

definition make_file :: "env \<Rightarrow> string \<Rightarrow> nat \<Rightarrow> jsval \<Rightarrow> exn + (blob \<times> string)" where
  "make_file env slot timestamp photoBase64 =
     and_then (base64Decode env photoBase64) (\<lambda>bytes.
       let b = \<lparr>blob_bytes = bytes, blob_type = ''image/png'',
                 blob_name = slot @ show_nat timestamp @ ''.png''\<rparr>
       in and_then (createFile env b) (\<lambda>url. Inr (b, url)))"

definition store_image :: "env \<Rightarrow> string \<Rightarrow> nat \<Rightarrow> jsval \<Rightarrow> string action" where
  "store_image env slot timestamp photoBase64 w =
     (case make_file env slot timestamp photoBase64 of
        Inl e \<Rightarrow> (Inl e, w)
      | Inr (b, url) \<Rightarrow>
          (Inr url, w\<lparr>files := (files w)(FOLDER_ID := files w FOLDER_ID @ [b])\<rparr>))"

definition save_image1 :: "env \<Rightarrow> nat \<Rightarrow> jsval \<Rightarrow> string action" where
  "save_image1 env timestamp photo1Base64 =
     try_catch (store_image env ''photo1_'' timestamp photo1Base64)
       (\<lambda>e. throw (Error (''Failed to save Image 1: '' @ message e)))"

definition save_image2 :: "env \<Rightarrow> nat \<Rightarrow> jsval \<Rightarrow> string action" where
  "save_image2 env timestamp photo2Base64 =
     (if truthy photo2Base64
      then then_do (lift (js_trim ''photo2Base64'' photo2Base64)) (\<lambda>trimmed.
             if trimmed \<noteq> []
             then try_catch (store_image env ''photo2_'' timestamp photo2Base64)
                    (\<lambda>e. ret (''Error saving image 2: '' @ message e))
             else ret [])
      else ret [])"

text \<open>\<open>sheet.appendRow(row)\<close>, on a sheet that \<open>open_sheet\<close> has found.\<close>

definition appendRow :: "env \<Rightarrow> string \<Rightarrow> jsval list \<Rightarrow> unit action" where
  "appendRow env sid row w =
     (case appendRow_fault env row of
        Some e \<Rightarrow> (Inl e, w)
      | None \<Rightarrow>
          (let rows = (case sheets w sid SHEET_NAME of None \<Rightarrow> [] | Some rs \<Rightarrow> rs)
           in (Inr (), w\<lparr>sheets := (sheets w)(sid := (sheets w sid)(SHEET_NAME \<mapsto> rows @ [row]))\<rparr>)))"

subsection \<open>saveData: the validation link\<close>

definition validationLink :: "jsval \<Rightarrow> exn + jsval" where
  "validationLink extractedData =
     and_then (get extractedData ''validation_source'') (\<lambda>validation_source.
       let link = js_or validation_source (JStr []);
           companyName = js_or (read_prop extractedData ''company'') (JStr ''Source'')
       in if truthy (read_prop extractedData ''is_validated'') \<and> truthy validation_source
          then and_then (js_replace_quotes ''extractedData.validation_source'' validation_source)
                 (\<lambda>safeUrl.
               and_then (js_replace_quotes ''companyName'' companyName) (\<lambda>safeName.
                 Inr (JStr (''=HYPERLINK('' @ [dq] @ safeUrl @ [dq] @ '', '' @ [dq]
                            @ safeName @ '' Link'' @ [dq] @ '')''))))
          else Inr link)"

subsection \<open>saveData: key people (the 22-column script only)\<close>

definition nl :: string where
  "nl = [CHR 0x0A]"

definition is_array :: "jsval \<Rightarrow> bool" where
  "is_array v = (case v of JArr xs \<Rightarrow> True | _ \<Rightarrow> False)"

definition elems :: "jsval \<Rightarrow> jsval list" where
  "elems v = (case v of JArr xs \<Rightarrow> xs | _ \<Rightarrow> [])"

definition person_details :: "env \<Rightarrow> jsval \<Rightarrow> exn + string" where
  "person_details env p =
     and_then (get p ''name'') (\<lambda>name.
     and_then (to_str env name) (\<lambda>n.
     and_then (to_str env (read_prop p ''role'')) (\<lambda>r.
       let details = n @ '' ('' @ r @ '')'';
           contact = read_prop p ''contact''
       in if truthy contact \<and> contact \<noteq> JStr ''Not Found''
          then and_then (to_str env contact) (\<lambda>c. Inr (details @ '' - '' @ c))
          else Inr details)))"

fun map_details :: "env \<Rightarrow> jsval list \<Rightarrow> exn + string list" where
  "map_details env [] = Inr []"
| "map_details env (p # ps) =
     and_then (person_details env p) (\<lambda>d.
     and_then (map_details env ps) (\<lambda>ds. Inr (d # ds)))"

definition push_part :: "env \<Rightarrow> string \<Rightarrow> jsval \<Rightarrow> string list \<Rightarrow> exn + string list" where
  "push_part env label v parts =
     (if truthy v then and_then (to_str env v) (\<lambda>s. Inr (parts @ [label @ s])) else Inr parts)"

definition keyPeopleString :: "env \<Rightarrow> jsval \<Rightarrow> exn + string" where
  "keyPeopleString env extractedData =
     (let key_people = read_prop extractedData ''key_people''
      in if truthy key_people \<and> is_array key_people
         then and_then (map_details env (elems key_people)) (\<lambda>ds. Inr (join nl ds))
         else and_then (push_part env ''Founder: '' (read_prop extractedData ''founder'') []) (\<lambda>parts.
              and_then (push_part env ''CEO: '' (read_prop extractedData ''ceo'') parts) (\<lambda>parts.
              and_then (push_part env ''Owner: '' (read_prop extractedData ''owner'') parts) (\<lambda>parts.
                Inr (join nl parts)))))"

subsection \<open>saveData: the rows\<close>

text \<open>
  Both scripts read \<open>extractedData.validation_source\<close> first, which raises on
  \<open>undefined\<close> and \<open>null\<close>; every later read of a field is on a value that has
  passed it.
\<close>

definition or_empty :: "jsval \<Rightarrow> string \<Rightarrow> jsval" where
  "or_empty extractedData k = js_or (read_prop extractedData k) (JStr [])"

definition legacy_row :: "nat \<Rightarrow> string \<Rightarrow> string \<Rightarrow> jsval \<Rightarrow> jsval \<Rightarrow> jsval list" where
  "legacy_row timestamp url1 url2 extractedData link =
     [JDate timestamp,
      JStr url1,
      JStr url2,
      or_empty extractedData ''company'',
      or_empty extractedData ''name'',
      or_empty extractedData ''phone'',
      or_empty extractedData ''email'',
      or_empty extractedData ''address'',
      read_prop extractedData ''is_validated'',
      link,
      or_empty extractedData ''about_the_company'',
      or_empty extractedData ''location'']"

definition extended_row ::
  "nat \<Rightarrow> string \<Rightarrow> string \<Rightarrow> jsval \<Rightarrow> jsval \<Rightarrow> string \<Rightarrow> jsval list" where
  "extended_row timestamp url1 url2 extractedData link keyPeople =
     [JDate timestamp,
      JStr url1,
      JStr url2,
      or_empty extractedData ''company'',
      or_empty extractedData ''industry'',
      or_empty extractedData ''name'',
      or_empty extractedData ''title'',
      or_empty extractedData ''phone'',
      or_empty extractedData ''email'',
      or_empty extractedData ''website'',
      or_empty extractedData ''social_media'',
      or_empty extractedData ''address'',
      or_empty extractedData ''services'',
      or_empty extractedData ''company_size'',
      js_or (js_or (read_prop extractedData ''established_year'')
                   (read_prop extractedData ''founded_year'')) (JStr []),
      or_empty extractedData ''registration_status'',
      or_empty extractedData ''trust_score'',
      JStr keyPeople,
      read_prop extractedData ''is_validated'',
      link,
      or_empty extractedData ''about_the_company'',
      or_empty extractedData ''location'']"

subsection \<open>saveData\<close>

text \<open>\<open>saveData\<close> of \<open>FINAL_APPS_SCRIPT.js\<close>, columns A to L.\<close>

definition saved_legacy :: jsval where
  "saved_legacy = JObj [(''message'',
     JStr ([CHR 0xC3, CHR 0xA2, CHR 0xC5, CHR 0x93, CHR 0xE2, CHR 0x80, CHR 0xA6]
           @ '' Data saved successfully!''))]"

definition saveData_legacy :: "env \<Rightarrow> jsval \<Rightarrow> jsval \<Rightarrow> jsval \<Rightarrow> jsval action" where
  "saveData_legacy env extractedData photo1Base64 photo2Base64 =
     then_do (open_sheet SHEET_ID_legacy) (\<lambda>sheet.
     then_do open_folder (\<lambda>folder.
     let timestamp = now env in
     then_do (save_image1 env timestamp photo1Base64) (\<lambda>url1.
     then_do (save_image2 env timestamp photo2Base64) (\<lambda>url2.
     then_do (lift (validationLink extractedData)) (\<lambda>link.
     then_do (appendRow env SHEET_ID_legacy (legacy_row timestamp url1 url2 extractedData link)) (\<lambda>u.
     ret saved_legacy))))))"

text \<open>\<open>saveData\<close> of the full version, columns A to V.\<close>

definition saved :: jsval where
  "saved = JObj [(''message'',
     JStr ([CHR 0xE2, CHR 0x9C, CHR 0x85] @ '' Data saved successfully!''))]"

definition saveData :: "env \<Rightarrow> jsval \<Rightarrow> jsval \<Rightarrow> jsval \<Rightarrow> jsval action" where
  "saveData env extractedData photo1Base64 photo2Base64 =
     then_do (open_sheet SHEET_ID) (\<lambda>sheet.
     then_do open_folder (\<lambda>folder.
     let timestamp = now env in
     then_do (save_image1 env timestamp photo1Base64) (\<lambda>url1.
     then_do (save_image2 env timestamp photo2Base64) (\<lambda>url2.
     then_do (lift (validationLink extractedData)) (\<lambda>link.
     then_do (lift (keyPeopleString env extractedData)) (\<lambda>keyPeople.
     then_do (appendRow env SHEET_ID
                (extended_row timestamp url1 url2 extractedData link keyPeople)) (\<lambda>u.
     ret saved)))))))"

subsection \<open>getSheetData\<close>

text \<open>
  \<open>rowFormulas[index]\<close>, where \<open>rowFormulas = formulas[i]\<close> is \<open>undefined\<close> (here
  \<open>None\<close>) when the formulas have no row \<open>i\<close>.
\<close>

definition formulas_row :: "string list list \<Rightarrow> nat \<Rightarrow> string list option" where
  "formulas_row formulas i = (if i < length formulas then Some (formulas ! i) else None)"

definition formula_at :: "string list option \<Rightarrow> nat \<Rightarrow> exn + jsval" where
  "formula_at rowFormulas index =
     (case rowFormulas of
        None \<Rightarrow>
          Inl (TypeError (''Cannot read properties of undefined (reading '' @ [sq]
                          @ show_nat index @ [sq] @ '')''))
      | Some fs \<Rightarrow> Inr (if index < length fs then JStr (fs ! index) else JUndefined))"

text \<open>
  \<open>obj[header] = v\<close>: the key is the header converted to a string. Assigning to
  \<open>__proto__\<close> makes no own property. The list keeps the properties in the order of
  their first assignment; an engine lists the keys that are array indices first, in
  ascending order, which the list does not show. The scripts read no order, and every
  statement below reads an object by key.
\<close>

definition assign :: "(string \<times> jsval) list \<Rightarrow> string \<Rightarrow> jsval \<Rightarrow> (string \<times> jsval) list" where
  "assign obj key v = (if key = ''__proto__'' then obj else set_prop obj key v)"

fun fill_object ::
  "env \<Rightarrow> jsval list \<Rightarrow> nat \<Rightarrow> jsval list \<Rightarrow> string list option
     \<Rightarrow> (string \<times> jsval) list \<Rightarrow> exn + (string \<times> jsval) list" where
  "fill_object env [] index row rowFormulas obj = Inr obj"
| "fill_object env (header # headers) index row rowFormulas obj =
     and_then (formula_at rowFormulas index) (\<lambda>formula.
     and_then (to_str env header) (\<lambda>key.
       fill_object env headers (Suc index) row rowFormulas
         (assign obj key (js_or formula (js_nth row index)))))"

fun read_rows ::
  "env \<Rightarrow> jsval list \<Rightarrow> jsval list list \<Rightarrow> string list list \<Rightarrow> nat list \<Rightarrow> exn + jsval list" where
  "read_rows env headers values formulas [] = Inr []"
| "read_rows env headers values formulas (i # is) =
     and_then (fill_object env headers 0 (values ! i) (formulas_row formulas i) []) (\<lambda>obj.
     and_then (read_rows env headers values formulas is) (\<lambda>data. Inr (JObj obj # data)))"

definition getSheetData :: "env \<Rightarrow> world \<Rightarrow> exn + jsval" where
  "getSheetData env w =
     and_then (getSheetByName SHEET_ID w) (\<lambda>sheet.
       case sheet of
         None \<Rightarrow> Inl (Error (''Sheet not found: '' @ SHEET_NAME))
       | Some rows \<Rightarrow>
           (let values = getValues env rows;
                formulas = getFormulas env rows
            in if length values < 2 then Inr (JArr [])
               else and_then (read_rows env (values ! 0) values formulas [1 ..< length values])
                      (\<lambda>data. Inr (JArr data))))"

subsection \<open>doGet and doPost\<close>











section \<open>Vocabulary of the statements\<close>

text \<open>
  The two column layouts, each with the script that writes it, the spreadsheet it
  writes to and the number of its columns.
\<close>

datatype schema = Legacy | Extended

fun save :: "schema \<Rightarrow> env \<Rightarrow> jsval \<Rightarrow> jsval \<Rightarrow> jsval \<Rightarrow> jsval action" where
  "save Legacy = saveData_legacy"
| "save Extended = saveData"

fun sheet_id :: "schema \<Rightarrow> string" where
  "sheet_id Legacy = SHEET_ID_legacy"
| "sheet_id Extended = SHEET_ID"

fun column_count :: "schema \<Rightarrow> nat" where
  "column_count Legacy = 12"
| "column_count Extended = 22"

text \<open>The rows of the sheet \<open>Ai Card\<close> of a spreadsheet, none if there is no such sheet.\<close>

definition sheet_rows :: "world \<Rightarrow> string \<Rightarrow> jsval list list" where
  "sheet_rows w sid = (case sheets w sid SHEET_NAME of None \<Rightarrow> [] | Some rs \<Rightarrow> rs)"

text \<open>The row a successful save leaves last in the sheet; \<open>None\<close> if the save raises.\<close>

definition saved_row ::
  "schema \<Rightarrow> env \<Rightarrow> jsval \<Rightarrow> jsval \<Rightarrow> jsval \<Rightarrow> world \<Rightarrow> jsval list option" where
  "saved_row sch env extractedData photo1Base64 photo2Base64 w =
     (case save sch env extractedData photo1Base64 photo2Base64 w of
        (Inl e, w') \<Rightarrow> None
      | (Inr r, w') \<Rightarrow> Some (last (sheet_rows w' (sheet_id sch))))"

text \<open>
  The columns (counted from 0) that hold an optional string field of the record, with
  the name of the field; the columns of the validation flag and of the validation
  link; the columns of the established year and of the key people.
\<close>

fun string_columns :: "schema \<Rightarrow> (string \<times> nat) list" where
  "string_columns Legacy =
     [(''company'', 3), (''name'', 4), (''phone'', 5), (''email'', 6), (''address'', 7),
      (''validation_source'', 9), (''about_the_company'', 10), (''location'', 11)]"
| "string_columns Extended =
     [(''company'', 3), (''industry'', 4), (''name'', 5), (''title'', 6), (''phone'', 7),
      (''email'', 8), (''website'', 9), (''social_media'', 10), (''address'', 11),
      (''services'', 12), (''company_size'', 13), (''established_year'', 14),
      (''registration_status'', 15), (''trust_score'', 16), (''validation_source'', 19),
      (''about_the_company'', 20), (''location'', 21)]"

fun flag_column :: "schema \<Rightarrow> nat" where
  "flag_column Legacy = 8"
| "flag_column Extended = 18"

fun link_column :: "schema \<Rightarrow> nat" where
  "link_column Legacy = 9"
| "link_column Extended = 19"

definition year_column :: nat where
  "year_column = 14"


text \<open>
  The cells that a script computes from the record before it appends the row: the
  validation link and, for the 22 columns, the key people.
\<close>

fun computed_cells :: "schema \<Rightarrow> env \<Rightarrow> jsval \<Rightarrow> exn + (jsval \<times> string)" where
  "computed_cells Legacy env extractedData =
     and_then (validationLink extractedData) (\<lambda>link. Inr (link, []))"
| "computed_cells Extended env extractedData =
     and_then (validationLink extractedData) (\<lambda>link.
     and_then (keyPeopleString env extractedData) (\<lambda>keyPeople. Inr (link, keyPeople)))"

fun row_of :: "schema \<Rightarrow> nat \<Rightarrow> string \<Rightarrow> string \<Rightarrow> jsval \<Rightarrow> jsval \<times> string \<Rightarrow> jsval list" where
  "row_of Legacy timestamp url1 url2 extractedData (link, keyPeople) =
     legacy_row timestamp url1 url2 extractedData link"
| "row_of Extended timestamp url1 url2 extractedData (link, keyPeople) =
     extended_row timestamp url1 url2 extractedData link keyPeople"

fun saved_message :: "schema \<Rightarrow> jsval" where
  "saved_message Legacy = saved_legacy"
| "saved_message Extended = saved"

text \<open>
  An optional string field: a string, or absent or \<open>null\<close>, which count as the empty
  string.
\<close>

fun text_of :: "jsval \<Rightarrow> string option" where
  "text_of JUndefined = Some []"
| "text_of JNull = Some []"
| "text_of (JStr s) = Some s"
| "text_of v = None"

text \<open>
  The world after \<open>createFile\<close>, and the content of the third cell as
  \<open>save_image2\<close> decides it (it does not depend on the state).
\<close>

definition add_file :: "blob \<Rightarrow> world \<Rightarrow> world" where
  "add_file b w = w\<lparr>files := (files w)(FOLDER_ID := files w FOLDER_ID @ [b])\<rparr>"

definition photo2_cell :: "env \<Rightarrow> nat \<Rightarrow> jsval \<Rightarrow> exn + string" where
  "photo2_cell env timestamp photo2Base64 =
     (if truthy photo2Base64 then
        (case js_trim ''photo2Base64'' photo2Base64 of
           Inl e \<Rightarrow> Inl e
         | Inr trimmed \<Rightarrow>
            if trimmed = [] then Inr []
            else (case make_file env ''photo2_'' timestamp photo2Base64 of
                    Inl e \<Rightarrow> Inr (''Error saving image 2: '' @ message e)
                  | Inr (b, url) \<Rightarrow> Inr url))
      else Inr [])"

text \<open>
  A platform that lets a save through: the sheet and the folder are found, the first
  photo is decoded and stored, the condition on the second photo raises nothing, and
  \<open>appendRow\<close> raises on no row. And a record from which the scripts can compute
  their cells: the validation link, the key people, both.
\<close>

definition platform_ready :: "schema \<Rightarrow> env \<Rightarrow> jsval \<Rightarrow> jsval \<Rightarrow> world \<Rightarrow> bool" where
  "platform_ready sch env photo1Base64 photo2Base64 w =
     (spreadsheet_fault w (sheet_id sch) = None
      \<and> sheets w (sheet_id sch) SHEET_NAME \<noteq> None
      \<and> folder_fault w FOLDER_ID = None
      \<and> (case make_file env ''photo1_'' (now env) photo1Base64 of
            Inl e \<Rightarrow> False | Inr f \<Rightarrow> True)
      \<and> (case photo2_cell env (now env) photo2Base64 of Inl e \<Rightarrow> False | Inr u \<Rightarrow> True)
      \<and> appendRow_fault env = (\<lambda>row. None))"



definition cells_computed :: "schema \<Rightarrow> env \<Rightarrow> jsval \<Rightarrow> bool" where
  "cells_computed sch env extractedData =
     (case computed_cells sch env extractedData of Inl e \<Rightarrow> False | Inr c \<Rightarrow> True)"

section \<open>The wording of the specification\<close>

text \<open>
  The validation cell as the specification words it: every double quote of the URL
  and of the label is doubled, the label is the company or \<open>Source\<close> when the
  company is empty, and the display text is the label followed by \<open>Link\<close>.
\<close>

primrec doubled :: "string \<Rightarrow> string" where
  "doubled [] = []"
| "doubled (c # cs) = (if c = dq then [dq, dq] else [c]) @ doubled cs"

definition spec_hyperlink :: "string \<Rightarrow> string \<Rightarrow> string" where
  "spec_hyperlink url company =
     ''=HYPERLINK('' @ [dq] @ doubled url @ [dq] @ '', '' @ [dq]
       @ doubled (if company = [] then ''Source'' else company) @ '' Link'' @ [dq] @ '')''"









text \<open>
  The ten cells that the layout of 22 columns adds, in the order in which the
  specification names them; and the layout as C8 words it, the ten inserted as one
  group between the eighth and the ninth column of the row of 12.
\<close>

definition new_cells :: "env \<Rightarrow> jsval \<Rightarrow> jsval list" where
  "new_cells env extractedData =
     [or_empty extractedData ''industry'',
      or_empty extractedData ''title'',
      or_empty extractedData ''website'',
      or_empty extractedData ''social_media'',
      or_empty extractedData ''services'',
      or_empty extractedData ''company_size'',
      js_or (js_or (read_prop extractedData ''established_year'')
                   (read_prop extractedData ''founded_year'')) (JStr []),
      or_empty extractedData ''registration_status'',
      or_empty extractedData ''trust_score'',
      JStr (case keyPeopleString env extractedData of Inl e \<Rightarrow> [] | Inr keyPeople \<Rightarrow> keyPeople)]"

definition spec_grouped_row :: "jsval list \<Rightarrow> jsval list \<Rightarrow> jsval list" where
  "spec_grouped_row legacy new = take 8 legacy @ new @ drop 8 legacy"






text \<open>
  Reading back: the formula of a cell, empty when the cell has none, and the cell as
  the reader returns it, the formula if there is one and the value otherwise.
\<close>

definition formula_text :: "string list list \<Rightarrow> nat \<Rightarrow> nat \<Rightarrow> string" where
  "formula_text formulas i j =
     (if i < length formulas \<and> j < length (formulas ! i) then formulas ! i ! j else [])"

definition spec_cell :: "string \<Rightarrow> jsval \<Rightarrow> jsval" where
  "spec_cell formula v = (if formula = [] then v else JStr formula)"

section \<open>A concrete platform\<close>

text \<open>
  A platform on which everything works except decoding any image other than
  \<open>aGk=\<close>: the clock stands at 7 ms, a created file gets a URL made of its name, the
  spreadsheets have an empty sheet \<open>Ai Card\<close>, and a cell written as a string that
  starts with \<open>=\<close> is read back as a formula.
\<close>

definition demo_env :: env where
  "demo_env =
     \<lparr>now = 7,
      date_toString = (\<lambda>t. ''Thu Jan 01 1970''),
      JSON_parse = (\<lambda>s. if s = ''{}'' then Inr (JObj []) else if s = ''null'' then Inr JNull
                           else Inl (SyntaxError ''Unexpected token'')),
      JSON_stringify = (\<lambda>v. ''{}''),
      fetch = (\<lambda>url options. Inr (200, ''{}'')),
      base64Decode = (\<lambda>v. if v = JStr ''aGk='' then Inr ''hi''
                             else Inl (Error ''Could not decode string.'')),
      createFile = (\<lambda>b. Inr (''https://drive.test/'' @ blob_name b)),
      appendRow_fault = (\<lambda>row. None),
      getValues = map (map (\<lambda>c. case c of
                                    JStr s \<Rightarrow> if take 1 s = ''='' then JStr ''Acme Link'' else c
                                  | _ \<Rightarrow> c)),
      getFormulas = map (map (\<lambda>c. case c of
                                      JStr s \<Rightarrow> if take 1 s = ''='' then s else []
                                    | _ \<Rightarrow> []))\<rparr>"

definition demo_world :: world where
  "demo_world =
     \<lparr>spreadsheet_fault = (\<lambda>sid. None),
      sheets = (\<lambda>sid name. if name = SHEET_NAME then Some [] else None),
      folder_fault = (\<lambda>fid. None),
      files = (\<lambda>fid. [])\<rparr>"

definition demo_url1 :: string where
  "demo_url1 = ''https://drive.test/photo1_7.png''"

text \<open>The file of the first photo, and the world once it is stored.\<close>

definition demo_file1 :: blob where
  "demo_file1 = \<lparr>blob_bytes = ''hi'', blob_type = ''image/png'', blob_name = ''photo1_7.png''\<rparr>"

definition photo1_stored :: world where
  "photo1_stored = add_file demo_file1 demo_world"

text \<open>A record with a founding year and no year of establishment, and its row.\<close>

definition founded_only :: jsval where
  "founded_only = JObj [(''company'', JStr ''Acme''), (''founded_year'', JStr ''1999'')]"

definition founded_only_row :: "jsval list" where
  "founded_only_row =
     [JDate 7, JStr demo_url1, JStr [], JStr ''Acme'',
      JStr [], JStr [], JStr [], JStr [], JStr [], JStr [], JStr [], JStr [],
      JStr [], JStr [], JStr ''1999'', JStr [], JStr [], JStr [], JUndefined,
      JStr [], JStr [], JStr []]"

text \<open>
  The card of the scenario: company \<open>Acme "A" Co\<close>, a validated source
  \<open>http://x.test\<close>; and its row of 12 cells.
\<close>

definition acme_card :: jsval where
  "acme_card =
     JObj [(''company'', JStr (''Acme '' @ [dq] @ ''A'' @ [dq] @ '' Co'')),
           (''validation_source'', JStr ''http://x.test''),
           (''is_validated'', JBool True)]"

definition acme_link :: string where
  "acme_link =
     ''=HYPERLINK('' @ [dq] @ ''http://x.test'' @ [dq] @ '', '' @ [dq]
       @ ''Acme '' @ [dq, dq] @ ''A'' @ [dq, dq] @ '' Co Link'' @ [dq] @ '')''"

definition acme_row :: "jsval list" where
  "acme_row =
     [JDate 7, JStr demo_url1, JStr [],
      JStr (''Acme '' @ [dq] @ ''A'' @ [dq] @ '' Co''),
      JStr [], JStr [], JStr [], JStr [], JBool True, JStr acme_link, JStr [], JStr []]"

text \<open>
  A card whose source URL comes with its quotes already doubled,
  \<open>http://x.test/""a""\<close>; and its row of 12 cells, with every quote doubled once
  more.
\<close>

definition escaped_card :: jsval where
  "escaped_card =
     JObj [(''validation_source'', JStr (''http://x.test/'' @ [dq, dq] @ ''a'' @ [dq, dq])),
           (''is_validated'', JBool True)]"

definition escaped_link :: string where
  "escaped_link =
     ''=HYPERLINK('' @ [dq] @ ''http://x.test/'' @ [dq, dq, dq, dq] @ ''a'' @ [dq, dq, dq, dq]
       @ [dq] @ '', '' @ [dq] @ ''Source Link'' @ [dq] @ '')''"

definition escaped_row :: "jsval list" where
  "escaped_row =
     [JDate 7, JStr demo_url1, JStr [], JStr [], JStr [], JStr [], JStr [], JStr [],
      JBool True, JStr escaped_link, JStr [], JStr []]"



text \<open>A card with a company, an industry and a name, and its rows in both layouts.\<close>

definition retail_card :: jsval where
  "retail_card =
     JObj [(''company'', JStr ''Acme''), (''industry'', JStr ''Retail''), (''name'', JStr ''Jo'')]"

definition retail_row :: "jsval list" where
  "retail_row =
     [JDate 7, JStr demo_url1, JStr [], JStr ''Acme'',
      JStr ''Retail'', JStr ''Jo'', JStr [], JStr [], JStr [], JStr [], JStr [], JStr [],
      JStr [], JStr [], JStr [], JStr [], JStr [], JStr [], JUndefined,
      JStr [], JStr [], JStr []]"

definition retail_legacy_row :: "jsval list" where
  "retail_legacy_row =
     [JDate 7, JStr demo_url1, JStr [], JStr ''Acme'', JStr ''Jo'',
      JStr [], JStr [], JStr [], JUndefined, JStr [], JStr [], JStr []]"

text \<open>The row of 12 cells of that card when the second photo cannot be decoded.\<close>

definition second_photo_failed_row :: "jsval list" where
  "second_photo_failed_row =
     [JDate 7, JStr demo_url1, JStr ''Error saving image 2: Could not decode string.'',
      JStr ''Acme'', JStr ''Jo'',
      JStr [], JStr [], JStr [], JUndefined, JStr [], JStr [], JStr []]"


text \<open>
  A sheet with a header row and two data rows; the link of the first data row was
  written as a formula.
\<close>

definition demo_sheet :: "jsval list list" where
  "demo_sheet =
     [[JStr ''Company'', JStr ''Validation Link''],
      [JStr ''Acme'', JStr acme_link],
      [JStr ''Bolt'', JStr ''http://b.test'']]"

definition demo_read_world :: world where
  "demo_read_world =
     \<lparr>spreadsheet_fault = (\<lambda>sid. None),
      sheets = (\<lambda>sid name. if name = SHEET_NAME then Some demo_sheet else None),
      folder_fault = (\<lambda>fid. None),
      files = (\<lambda>fid. [])\<rparr>"

definition demo_data :: "jsval list" where
  "demo_data =
     [JObj [(''Company'', JStr ''Acme''), (''Validation Link'', JStr acme_link)],
      JObj [(''Company'', JStr ''Bolt''), (''Validation Link'', JStr ''http://b.test'')]]"






section \<open>How a save runs\<close>

lemmas action_defs = ret_def throw_def lift_def then_do_def try_catch_def

lemma open_sheet_eq:
  "open_sheet sid w =
     (case spreadsheet_fault w sid of
        Some e \<Rightarrow>
          (Inl (Error (''FAILED to access Spreadsheet. Check SHEET_ID or Sheet Name. Details: ''
                       @ message e)), w)
      | None \<Rightarrow>
          (case sheets w sid SHEET_NAME of
             None \<Rightarrow>
               (Inl (Error (''FAILED to access Spreadsheet. Check SHEET_ID or Sheet Name. Details: ''
                            @ ''Sheet with name '' @ [sq] @ SHEET_NAME @ [sq] @ '' not found.'')), w)
           | Some rows \<Rightarrow> (Inr (), w)))"
  by (simp add: open_sheet_def action_defs getSheetByName_def split: option.splits)

lemma open_folder_eq:
  "open_folder w =
     (case folder_fault w FOLDER_ID of
        Some e \<Rightarrow>
          (Inl (Error (''FAILED to access Drive Folder. Check FOLDER_ID. Details: '' @ message e)), w)
      | None \<Rightarrow> (Inr (), w))"
  by (simp add: open_folder_def action_defs split: option.splits)

lemma save_image1_eq:
  "save_image1 env ts p w =
     (case make_file env ''photo1_'' ts p of
        Inl e \<Rightarrow> (Inl (Error (''Failed to save Image 1: '' @ message e)), w)
      | Inr (b, url) \<Rightarrow> (Inr url, add_file b w))"
  by (simp add: save_image1_def store_image_def action_defs add_file_def
      split: sum.splits prod.splits)

lemma save_image2_eq:
  "save_image2 env ts p w =
     (if truthy p then
        (case js_trim ''photo2Base64'' p of
           Inl e \<Rightarrow> (Inl e, w)
         | Inr t \<Rightarrow>
            if t = [] then (Inr [], w)
            else (case make_file env ''photo2_'' ts p of
                    Inl e \<Rightarrow> (Inr (''Error saving image 2: '' @ message e), w)
                  | Inr (b, url) \<Rightarrow> (Inr url, add_file b w)))
      else (Inr [], w))"
  by (simp add: save_image2_def store_image_def action_defs add_file_def
      split: sum.splits prod.splits)

lemma add_file_simps [simp]:
  "sheets (add_file b w) = sheets w"
  "spreadsheet_fault (add_file b w) = spreadsheet_fault w"
  "folder_fault (add_file b w) = folder_fault w"
  by (simp_all add: add_file_def)

lemma save_image2_fst: "fst (save_image2 env ts p w) = photo2_cell env ts p"
  by (simp add: save_image2_eq photo2_cell_def split: sum.splits prod.splits)

lemma save_image2_frame:
  "save_image2 env ts p w = (r, w') \<Longrightarrow>
     sheets w' = sheets w \<and> spreadsheet_fault w' = spreadsheet_fault w
     \<and> folder_fault w' = folder_fault w"
  by (auto simp: save_image2_eq split: if_splits sum.splits prod.splits)

lemma save_image2_Inr:
  assumes "save_image2 env ts p w = (Inr url2, w')"
  shows "photo2_cell env ts p = Inr url2 \<and> sheets w' = sheets w"
proof -
  have "fst (save_image2 env ts p w) = Inr url2" using assms by simp
  then have "photo2_cell env ts p = Inr url2" by (simp add: save_image2_fst)
  with save_image2_frame[OF assms] show ?thesis by simp
qed

lemma appendRow_Inr:
  "appendRow env sid row w = (Inr u, w') \<Longrightarrow>
     appendRow_fault env row = None \<and> sheet_rows w' sid = sheet_rows w sid @ [row]"
  by (auto simp: appendRow_def sheet_rows_def Let_def split: option.splits)

text \<open>Both scripts are the same sequence of steps, up to the sheet and the row.\<close>

lemma save_eq:
  "save sch env rec p1 p2 w =
    (case open_sheet (sheet_id sch) w of
       (Inl e, w0) \<Rightarrow> (Inl e, w0)
     | (Inr u, w0) \<Rightarrow>
    (case open_folder w0 of
       (Inl e, w1) \<Rightarrow> (Inl e, w1)
     | (Inr u, w1) \<Rightarrow>
    (case save_image1 env (now env) p1 w1 of
       (Inl e, w2) \<Rightarrow> (Inl e, w2)
     | (Inr url1, w2) \<Rightarrow>
    (case save_image2 env (now env) p2 w2 of
       (Inl e, w3) \<Rightarrow> (Inl e, w3)
     | (Inr url2, w3) \<Rightarrow>
    (case computed_cells sch env rec of
       Inl e \<Rightarrow> (Inl e, w3)
     | Inr c \<Rightarrow>
    (case appendRow env (sheet_id sch) (row_of sch (now env) url1 url2 rec c) w3 of
       (Inl e, w4) \<Rightarrow> (Inl e, w4)
     | (Inr u, w4) \<Rightarrow> (Inr (saved_message sch), w4)))))))"
  by (cases sch)
     (simp_all add: saveData_def saveData_legacy_def action_defs Let_def and_then_def
        split: sum.splits prod.splits)

lemma save_Inr:
  assumes "save sch env rec p1 p2 w = (Inr r, w')"
  shows "\<exists>rows b1 url1 url2 c.
           spreadsheet_fault w (sheet_id sch) = None \<and>
           sheets w (sheet_id sch) SHEET_NAME = Some rows \<and>
           folder_fault w FOLDER_ID = None \<and>
           make_file env ''photo1_'' (now env) p1 = Inr (b1, url1) \<and>
           photo2_cell env (now env) p2 = Inr url2 \<and>
           computed_cells sch env rec = Inr c \<and>
           appendRow_fault env (row_of sch (now env) url1 url2 rec c) = None \<and>
           sheet_rows w' (sheet_id sch) = rows @ [row_of sch (now env) url1 url2 rec c] \<and>
           r = saved_message sch"
proof -
  from assms show ?thesis
    unfolding save_eq open_sheet_eq open_folder_eq save_image1_eq
    apply (simp split: option.splits sum.splits prod.splits)
    apply (auto dest!: appendRow_Inr save_image2_Inr simp: sheet_rows_def)
    done
qed

lemma saved_rowD:
  assumes "saved_row sch env rec p1 p2 w = Some row"
  shows "\<exists>b1 url1 url2 c.
           make_file env ''photo1_'' (now env) p1 = Inr (b1, url1) \<and>
           photo2_cell env (now env) p2 = Inr url2 \<and>
           computed_cells sch env rec = Inr c \<and>
           row = row_of sch (now env) url1 url2 rec c \<and>
           sheet_rows (snd (save sch env rec p1 p2 w)) (sheet_id sch)
             = sheet_rows w (sheet_id sch) @ [row]"
proof -
  obtain r w' where s: "save sch env rec p1 p2 w = (Inr r, w')"
    and row: "row = last (sheet_rows w' (sheet_id sch))"
    using assms by (auto simp: saved_row_def split: prod.splits sum.splits)
  from save_Inr[OF s] obtain rows b1 url1 url2 c where
    h: "sheets w (sheet_id sch) SHEET_NAME = Some rows"
       "make_file env ''photo1_'' (now env) p1 = Inr (b1, url1)"
       "photo2_cell env (now env) p2 = Inr url2"
       "computed_cells sch env rec = Inr c"
       "sheet_rows w' (sheet_id sch) = rows @ [row_of sch (now env) url1 url2 rec c]"
    by blast
  show ?thesis using h s row by (auto simp: sheet_rows_def)
qed

text \<open>The converse: when every step succeeds, the row is appended.\<close>

lemma saved_rowI:
  assumes "spreadsheet_fault w (sheet_id sch) = None"
    and "sheets w (sheet_id sch) SHEET_NAME = Some rows"
    and "folder_fault w FOLDER_ID = None"
    and "make_file env ''photo1_'' (now env) p1 = Inr (b1, url1)"
    and "photo2_cell env (now env) p2 = Inr url2"
    and "computed_cells sch env rec = Inr c"
    and "appendRow_fault env (row_of sch (now env) url1 url2 rec c) = None"
  shows "saved_row sch env rec p1 p2 w = Some (row_of sch (now env) url1 url2 rec c)"
proof -
  obtain r2 w2 where s2: "save_image2 env (now env) p2 (add_file b1 w) = (r2, w2)"
    by (cases "save_image2 env (now env) p2 (add_file b1 w)")
  have r2: "r2 = Inr url2"
    using save_image2_fst[of env "now env" p2 "add_file b1 w"] s2 assms(5) by simp
  have fr: "sheets w2 = sheets w" using save_image2_frame[OF s2] by simp
  show ?thesis
    using assms s2 r2 fr
    by (simp add: saved_row_def save_eq open_sheet_eq open_folder_eq save_image1_eq
        appendRow_def sheet_rows_def)
qed

subsection \<open>Cells\<close>

lemma row_of_length: "length (row_of sch ts u1 u2 rec c) = column_count sch"
  by (cases sch; cases c) (simp_all add: legacy_row_def extended_row_def)

lemma truthy_defined: "truthy v \<Longrightarrow> v \<noteq> JUndefined \<and> v \<noteq> JNull"
  by (cases v) simp_all

lemma or_empty_cases:
  "or_empty rec k \<noteq> JUndefined" "or_empty rec k \<noteq> JNull"
  "\<not> truthy (read_prop rec k) \<Longrightarrow> or_empty rec k = JStr []"
  by (auto simp: or_empty_def js_or_def)

lemma validationLink_cases:
  assumes "validationLink rec = Inr link"
  shows "link \<noteq> JUndefined" "link \<noteq> JNull"
    "\<not> truthy (read_prop rec ''validation_source'') \<Longrightarrow> link = JStr []"
  using assms
  by (auto simp: validationLink_def and_then_def get_def js_or_def Let_def
      split: if_splits sum.splits)

lemma computed_cells_link:
  "computed_cells sch env rec = Inr (link, kp) \<Longrightarrow> validationLink rec = Inr link"
  by (cases sch) (auto simp: and_then_def split: sum.splits)

lemma replace_quotes_doubled: "replace_quotes s = doubled s"
  by (induction s) (simp_all add: replace_quotes_def)

lemma doubled_count: "count_list (doubled s) dq = 2 * count_list s dq"
  by (induction s) simp_all

lemma doubled_length: "length (doubled s) = length s + count_list s dq"
  by (induction s) simp_all

lemma count_list_0: "count_list s c = 0 \<longleftrightarrow> c \<notin> set s"
  by (induction s) auto

lemma doubled_id: "dq \<notin> set s \<Longrightarrow> doubled s = s"
  by (induction s) auto

lemma doubled_twice: "doubled (doubled s) = doubled s \<longleftrightarrow> dq \<notin> set s"
proof
  assume eq: "doubled (doubled s) = doubled s"
  have "length (doubled (doubled s)) = length (doubled s) + 2 * count_list s dq"
    by (simp add: doubled_length doubled_count)
  with eq have "count_list s dq = 0" by simp
  then show "dq \<notin> set s" by (simp add: count_list_0)
next
  assume "dq \<notin> set s"
  then show "doubled (doubled s) = doubled s" by (simp add: doubled_id)
qed

text \<open>The validation link of a record whose source is an optional string.\<close>

lemma validationLink_plain:
  assumes "validationLink rec = Inr link"
    and "text_of (read_prop rec ''validation_source'') = Some src"
    and "\<not> truthy (read_prop rec ''is_validated'') \<or> src = []"
  shows "link = JStr src"
  using assms
  by (cases "read_prop rec ''validation_source''")
     (auto simp: validationLink_def and_then_def get_def js_or_def Let_def
        split: if_splits sum.splits)

lemma validationLink_formula:
  assumes "validationLink rec = Inr link"
    and "text_of (read_prop rec ''validation_source'') = Some src"
    and "truthy (read_prop rec ''is_validated'')" and "src \<noteq> []"
    and "text_of (read_prop rec ''company'') = Some company"
  shows "link = JStr (spec_hyperlink src company)"
proof -
  have src: "read_prop rec ''validation_source'' = JStr src"
    using assms(2,4) by (cases "read_prop rec ''validation_source''") auto
  have url: "js_replace_quotes expr (JStr src) = Inr (doubled src)" for expr
    by (simp add: js_replace_quotes_def replace_quotes_doubled)
  have name: "js_replace_quotes expr (js_or (read_prop rec ''company'') (JStr ''Source''))
      = Inr (doubled (if company = [] then ''Source'' else company))" for expr
    using assms(5)
    by (cases "read_prop rec ''company''")
       (auto simp: js_or_def js_replace_quotes_def replace_quotes_doubled)
  show ?thesis
    using assms(1,3,4)
    by (simp add: validationLink_def and_then_def get_def Let_def src url name
        spec_hyperlink_def split: if_splits)
qed

lemma row_of_cells:
  "row_of sch ts u1 u2 rec (link, kp) ! link_column sch = link"
  "row_of sch ts u1 u2 rec (link, kp) ! flag_column sch = read_prop rec ''is_validated''"
  "row_of sch ts u1 u2 rec (link, kp) ! 2 = JStr u2"
  by (cases sch; simp add: legacy_row_def extended_row_def)+

subsection \<open>Key people\<close>











lemma computed_cells_people:
  "computed_cells Extended env rec = Inr (link, kp) \<Longrightarrow> keyPeopleString env rec = Inr kp"
  by (auto simp: and_then_def split: sum.splits)

subsection \<open>Completion\<close>

lemma save_completes:
  assumes "platform_ready sch env p1 p2 w" and "computed_cells sch env rec = Inr c"
  shows "\<exists>url1 url2. saved_row sch env rec p1 p2 w = Some (row_of sch (now env) url1 url2 rec c)"
proof -
  from assms(1) obtain rows b1 url1 url2 where
    h: "spreadsheet_fault w (sheet_id sch) = None"
       "sheets w (sheet_id sch) SHEET_NAME = Some rows"
       "folder_fault w FOLDER_ID = None"
       "make_file env ''photo1_'' (now env) p1 = Inr (b1, url1)"
       "photo2_cell env (now env) p2 = Inr url2"
       "appendRow_fault env = (\<lambda>row. None)"
    by (auto simp: platform_ready_def split: sum.splits)
  have "appendRow_fault env (row_of sch (now env) url1 url2 rec c) = None"
    by (simp add: h(6))
  from saved_rowI[OF h(1-5) assms(2) this] show ?thesis by blast
qed

lemma cells_computedD:
  "cells_computed sch env rec \<Longrightarrow> \<exists>link kp. computed_cells sch env rec = Inr (link, kp)"
  by (cases "computed_cells sch env rec") (auto simp: cells_computed_def)

lemma computed_cells_Legacy:
  "validationLink rec = Inr link \<Longrightarrow> computed_cells Legacy env rec = Inr (link, [])"
  by (simp add: and_then_def)




lemma save_raises_at_photo2:
  assumes "spreadsheet_fault w (sheet_id sch) = None"
    and "sheets w (sheet_id sch) SHEET_NAME = Some rows"
    and "folder_fault w FOLDER_ID = None"
    and "make_file env ''photo1_'' (now env) p1 = Inr (b1, url1)"
    and "truthy p2" and "js_trim ''photo2Base64'' p2 = Inl e"
  shows "save sch env rec p1 p2 w = (Inl e, add_file b1 w)"
  using assms
  by (simp add: save_eq open_sheet_eq open_folder_eq save_image1_eq save_image2_eq)


subsection \<open>The validation link of any record\<close>



subsection \<open>Photos\<close>

lemma photo1_failure:
  assumes "make_file env ''photo1_'' (now env) p1 = Inl e"
  shows "snd (save sch env rec p1 p2 w) = w"
    and "saved_row sch env rec p1 p2 w = None"
    and "spreadsheet_fault w (sheet_id sch) = None \<Longrightarrow> sheets w (sheet_id sch) SHEET_NAME \<noteq> None
         \<Longrightarrow> folder_fault w FOLDER_ID = None
         \<Longrightarrow> fst (save sch env rec p1 p2 w) = Inl (Error (''Failed to save Image 1: '' @ message e))"
  using assms
  by (auto simp: saved_row_def save_eq open_sheet_eq open_folder_eq save_image1_eq
      split: option.splits)

lemma trim_Nil: "trim [] = []"
  by (simp add: trim_def)

lemma photo2_failure:
  assumes "trim s \<noteq> []" and "make_file env ''photo2_'' ts (JStr s) = Inl e"
  shows "photo2_cell env ts (JStr s) = Inr (''Error saving image 2: '' @ message e)"
proof -
  have "s \<noteq> []" using assms(1) trim_Nil by auto
  then show ?thesis using assms by (simp add: photo2_cell_def js_trim_def)
qed

subsection \<open>Requests\<close>



subsection \<open>Reading back\<close>

lemma map_of_set_prop: "map_of (set_prop obj k v) = (map_of obj)(k \<mapsto> v)"
  by (induction obj) auto

lemma map_of_assign:
  "map_of (assign obj k v) = (if k = ''__proto__'' then map_of obj else (map_of obj)(k \<mapsto> v))"
  by (simp add: assign_def map_of_set_prop)

lemma formula_at_Some:
  "formula_at (Some fs) n = Inr (if n < length fs then JStr (fs ! n) else JUndefined)"
  by (simp add: formula_at_def)

lemma cell_spec:
  "js_or (if n < length fs then JStr (fs ! n) else JUndefined) v
     = spec_cell (if n < length fs then fs ! n else []) v"
  by (simp add: js_or_def spec_cell_def)

lemma fill_object_ok:
  assumes "map (to_str env) hs = map Inr ks"
  shows "\<exists>obj'. fill_object env hs n row (Some fs) obj = Inr obj'
           \<and> (\<forall>k. k \<notin> set ks \<longrightarrow> map_of obj' k = map_of obj k)
           \<and> (\<forall>j<length ks. ks ! j \<noteq> ''__proto__'' \<and> ks ! j \<notin> set (drop (Suc j) ks)
                \<longrightarrow> map_of obj' (ks ! j)
                  = Some (spec_cell (if n + j < length fs then fs ! (n + j) else [])
                            (js_nth row (n + j))))"
  using assms
proof (induction hs arbitrary: ks n obj)
  case Nil
  then show ?case by simp
next
  case (Cons h hs)
  then obtain k ks' where ks: "ks = k # ks'" and h: "to_str env h = Inr k"
    and rest: "map (to_str env) hs = map Inr ks'"
    by (cases ks) auto
  let ?v = "spec_cell (if n < length fs then fs ! n else []) (js_nth row n)"
  from Cons.IH[OF rest, of "Suc n" "assign obj k ?v"]
  obtain obj' where
    run: "fill_object env hs (Suc n) row (Some fs) (assign obj k ?v) = Inr obj'"
    and keep: "\<forall>k'. k' \<notin> set ks' \<longrightarrow> map_of obj' k' = map_of (assign obj k ?v) k'"
    and cells: "\<forall>j<length ks'. ks' ! j \<noteq> ''__proto__'' \<and> ks' ! j \<notin> set (drop (Suc j) ks')
                \<longrightarrow> map_of obj' (ks' ! j)
                  = Some (spec_cell (if Suc n + j < length fs then fs ! (Suc n + j) else [])
                            (js_nth row (Suc n + j)))"
    by blast
  have r: "fill_object env (h # hs) n row (Some fs) obj = Inr obj'"
    using run h by (simp add: formula_at_Some and_then_def cell_spec)
  have k1: "\<forall>k'. k' \<notin> set ks \<longrightarrow> map_of obj' k' = map_of obj k'"
    using keep by (auto simp: ks map_of_assign)
  have k2: "\<forall>j<length ks. ks ! j \<noteq> ''__proto__'' \<and> ks ! j \<notin> set (drop (Suc j) ks)
                \<longrightarrow> map_of obj' (ks ! j)
                  = Some (spec_cell (if n + j < length fs then fs ! (n + j) else [])
                            (js_nth row (n + j)))"
  proof (intro allI impI)
    fix j
    assume j: "j < length ks"
      and c: "ks ! j \<noteq> ''__proto__'' \<and> ks ! j \<notin> set (drop (Suc j) ks)"
    show "map_of obj' (ks ! j)
            = Some (spec_cell (if n + j < length fs then fs ! (n + j) else [])
                      (js_nth row (n + j)))"
    proof (cases j)
      case 0
      then have "k \<noteq> ''__proto__''" "k \<notin> set ks'" using c by (simp_all add: ks)
      then show ?thesis using keep 0 by (simp add: ks map_of_assign)
    next
      case (Suc j')
      then show ?thesis using cells j c by (simp add: ks)
    qed
  qed
  from r k1 k2 show ?case by blast
qed

lemma read_rows_ok:
  assumes "map (to_str env) hs = map Inr ks"
    and "\<forall>i \<in> set idx. i < length formulas"
  shows "\<exists>data. read_rows env hs values formulas idx = Inr data
           \<and> length data = length idx
           \<and> (\<forall>n<length idx. \<forall>j<length ks.
                 ks ! j \<noteq> ''__proto__'' \<and> ks ! j \<notin> set (drop (Suc j) ks)
                 \<longrightarrow> read_prop (data ! n) (ks ! j)
                   = spec_cell (formula_text formulas (idx ! n) j)
                       (js_nth (values ! (idx ! n)) j))"
  using assms(2)
proof (induction idx)
  case Nil
  then show ?case by simp
next
  case (Cons i idx)
  then have i: "i < length formulas" and rest: "\<forall>i \<in> set idx. i < length formulas"
    by simp_all
  from fill_object_ok[OF assms(1), of 0 "values ! i" "formulas ! i" "[]"]
  obtain obj where
    run: "fill_object env hs 0 (values ! i) (Some (formulas ! i)) [] = Inr obj"
    and cells: "\<forall>j<length ks. ks ! j \<noteq> ''__proto__'' \<and> ks ! j \<notin> set (drop (Suc j) ks)
                \<longrightarrow> map_of obj (ks ! j)
                  = Some (spec_cell (if j < length (formulas ! i) then formulas ! i ! j else [])
                            (js_nth (values ! i) j))"
    by auto
  from Cons.IH[OF rest] obtain data where
    d: "read_rows env hs values formulas idx = Inr data" "length data = length idx"
    and dc: "\<forall>n<length idx. \<forall>j<length ks.
                 ks ! j \<noteq> ''__proto__'' \<and> ks ! j \<notin> set (drop (Suc j) ks)
                 \<longrightarrow> read_prop (data ! n) (ks ! j)
                   = spec_cell (formula_text formulas (idx ! n) j)
                       (js_nth (values ! (idx ! n)) j)"
    by blast
  have r: "read_rows env hs values formulas (i # idx) = Inr (JObj obj # data)"
    using run d(1) i by (simp add: formulas_row_def and_then_def)
  have "\<forall>n<length (i # idx). \<forall>j<length ks.
                 ks ! j \<noteq> ''__proto__'' \<and> ks ! j \<notin> set (drop (Suc j) ks)
                 \<longrightarrow> read_prop ((JObj obj # data) ! n) (ks ! j)
                   = spec_cell (formula_text formulas ((i # idx) ! n) j)
                       (js_nth (values ! ((i # idx) ! n)) j)"
  proof (intro allI impI)
    fix n j
    assume n: "n < length (i # idx)" and j: "j < length ks"
      and c: "ks ! j \<noteq> ''__proto__'' \<and> ks ! j \<notin> set (drop (Suc j) ks)"
    show "read_prop ((JObj obj # data) ! n) (ks ! j)
            = spec_cell (formula_text formulas ((i # idx) ! n) j)
                (js_nth (values ! ((i # idx) ! n)) j)"
    proof (cases n)
      case 0
      then show ?thesis using cells j c i by (simp add: formula_text_def)
    next
      case (Suc n')
      then show ?thesis using dc n j c by simp
    qed
  qed
  with r d(2) show ?case by auto
qed

subsection \<open>The concrete platform\<close>

lemma demo_make_file1:
  "make_file demo_env ''photo1_'' (now demo_env) (JStr ''aGk='')
     = Inr (\<lparr>blob_bytes = ''hi'', blob_type = ''image/png'', blob_name = ''photo1_7.png''\<rparr>,
            demo_url1)"
  by (simp add: make_file_def demo_env_def demo_url1_def and_then_def show_nat.simps
      digit_char_def)

lemma demo_world_ok:
  "spreadsheet_fault demo_world sid = None"
  "sheets demo_world sid SHEET_NAME = Some []"
  "folder_fault demo_world fid = None"
  by (simp_all add: demo_world_def)

lemma demo_env_simps:
  "now demo_env = 7" "appendRow_fault demo_env row = None"
  by (simp_all add: demo_env_def)

lemma photo2_absent: "photo2_cell env ts JUndefined = Inr []"
  by (simp add: photo2_cell_def)

lemma demo_sheet_rows: "sheet_rows demo_world sid = []"
  by (simp add: sheet_rows_def demo_world_def)

lemma founded_only_saved:
  "saved_row Extended demo_env founded_only (JStr ''aGk='') JUndefined demo_world
     = Some founded_only_row"
proof -
  have c: "computed_cells Extended demo_env founded_only = Inr (JStr [], [])"
    by (simp add: founded_only_def validationLink_def keyPeopleString_def get_def and_then_def
        js_or_def is_array_def push_part_def Let_def)
  have "saved_row Extended demo_env founded_only (JStr ''aGk='') JUndefined demo_world
      = Some (row_of Extended (now demo_env) demo_url1 [] founded_only (JStr [], []))"
    by (rule saved_rowI[OF demo_world_ok demo_make_file1 photo2_absent c])
       (simp add: demo_env_simps)
  then show ?thesis
    by (simp add: founded_only_def founded_only_row_def extended_row_def or_empty_def js_or_def
        demo_env_simps)
qed

lemma demo_legacy_saved:
  assumes "validationLink rec = Inr link"
  shows "saved_row Legacy demo_env rec (JStr ''aGk='') JUndefined demo_world
     = Some (legacy_row 7 demo_url1 [] rec link)"
proof -
  have c: "computed_cells Legacy demo_env rec = Inr (link, [])"
    using assms by (simp add: and_then_def)
  have "saved_row Legacy demo_env rec (JStr ''aGk='') JUndefined demo_world
      = Some (row_of Legacy (now demo_env) demo_url1 [] rec (link, []))"
    by (rule saved_rowI[OF demo_world_ok demo_make_file1 photo2_absent c])
       (simp add: demo_env_simps)
  then show ?thesis by (simp add: demo_env_simps)
qed

lemma dq_simps [simp]: "dq \<noteq> CHR ''A''" "dq \<noteq> CHR ''a''"
  by (simp_all add: dq_def)

lemma acme_saved:
  "saved_row Legacy demo_env acme_card (JStr ''aGk='') JUndefined demo_world = Some acme_row"
proof -
  have "validationLink acme_card = Inr (JStr acme_link)"
    by (simp add: acme_card_def acme_link_def validationLink_def get_def and_then_def js_or_def
        js_replace_quotes_def replace_quotes_def dq_def)
  from demo_legacy_saved[OF this] show ?thesis
    by (simp add: acme_row_def legacy_row_def acme_card_def or_empty_def js_or_def)
qed

lemma escaped_saved:
  "saved_row Legacy demo_env escaped_card (JStr ''aGk='') JUndefined demo_world
     = Some escaped_row"
proof -
  have "validationLink escaped_card = Inr (JStr escaped_link)"
    by (simp add: escaped_card_def escaped_link_def validationLink_def get_def and_then_def
        js_or_def js_replace_quotes_def replace_quotes_def dq_def)
  from demo_legacy_saved[OF this] show ?thesis
    by (simp add: escaped_row_def legacy_row_def escaped_card_def or_empty_def js_or_def)
qed

lemma demo_extended_saved:
  assumes "validationLink rec = Inr link" and "keyPeopleString demo_env rec = Inr kp"
  shows "saved_row Extended demo_env rec (JStr ''aGk='') JUndefined demo_world
     = Some (extended_row 7 demo_url1 [] rec link kp)"
proof -
  have c: "computed_cells Extended demo_env rec = Inr (link, kp)"
    using assms by (simp add: and_then_def)
  have "saved_row Extended demo_env rec (JStr ''aGk='') JUndefined demo_world
      = Some (row_of Extended (now demo_env) demo_url1 [] rec (link, kp))"
    by (rule saved_rowI[OF demo_world_ok demo_make_file1 photo2_absent c])
       (simp add: demo_env_simps)
  then show ?thesis by (simp add: demo_env_simps)
qed


lemma retail_cells:
  "validationLink retail_card = Inr (JStr [])"
  "keyPeopleString demo_env retail_card = Inr []"
  by (simp_all add: retail_card_def validationLink_def get_def and_then_def js_or_def
      keyPeopleString_def is_array_def push_part_def)

lemma retail_saved:
  "saved_row Extended demo_env retail_card (JStr ''aGk='') JUndefined demo_world
     = Some retail_row"
  using demo_extended_saved[OF retail_cells]
  by (simp add: retail_row_def extended_row_def retail_card_def or_empty_def js_or_def)

lemma retail_legacy_saved:
  "saved_row Legacy demo_env retail_card (JStr ''aGk='') JUndefined demo_world
     = Some retail_legacy_row"
  using demo_legacy_saved[OF retail_cells(1)]
  by (simp add: retail_legacy_row_def legacy_row_def retail_card_def or_empty_def js_or_def)

lemma demo_make_file_bad:
  "make_file demo_env slot ts (JStr ''!!'') = Inl (Error ''Could not decode string.'')"
  by (simp add: make_file_def demo_env_def and_then_def)

lemma trim_bangs: "trim ''!!'' = ''!!''"
  by (simp add: trim_def ws_len_def ws_seqs_def)

lemma demo_values:
  "getValues demo_env demo_sheet
     = [[JStr ''Company'', JStr ''Validation Link''],
        [JStr ''Acme'', JStr ''Acme Link''],
        [JStr ''Bolt'', JStr ''http://b.test'']]"
  by (simp add: demo_env_def demo_sheet_def acme_link_def)

lemma demo_formulas:
  "getFormulas demo_env demo_sheet = [[[], []], [[], acme_link], [[], []]]"
  by (simp add: demo_env_def demo_sheet_def) (simp add: acme_link_def)

lemma demo_read:
  "getSheetData demo_env demo_read_world = Inr (JArr demo_data)"
proof -
  have s: "getSheetByName SHEET_ID demo_read_world = Inr (Some demo_sheet)"
    by (simp add: getSheetByName_def demo_read_world_def)
  have a: "acme_link \<noteq> []" by (simp add: acme_link_def)
  have u: "[1..<3] = [1, 2]" by (simp add: upt_rec)
  show ?thesis
    using a
    by (simp add: getSheetData_def s and_then_def demo_values demo_formulas Let_def u
        formulas_row_def formula_at_def js_or_def js_nth_def assign_def demo_data_def)
qed

lemma demo_ready: "platform_ready sch demo_env (JStr ''aGk='') JUndefined demo_world"
  using demo_make_file1
  by (simp add: platform_ready_def demo_world_ok photo2_absent) (simp add: demo_env_def)

lemma demo_file1_made:
  "make_file demo_env ''photo1_'' (now demo_env) (JStr ''aGk='') = Inr (demo_file1, demo_url1)"
  using demo_make_file1 by (simp add: demo_file1_def)


lemma stored_sheet_rows: "sheet_rows photo1_stored sid = []"
  by (simp add: photo1_stored_def sheet_rows_def demo_world_def)


subsection \<open>Photos, in general and on the concrete platform\<close>

text \<open>
  In both scripts: when decoding or storing the first photo raises, the save raises,
  changes nothing (no row is appended, no file is kept), and, the sheet and the folder
  being accessible, what it raises is the error \<open>Failed to save Image 1: ...\<close>. When
  decoding or storing a second photo that is given as a string that is not blank
  raises, the third cell is the text \<open>Error saving image 2: ...\<close> in any row the
  save appends, and the save appends the row whenever its other steps succeed.
\<close>

lemma photo_failures:
  "(make_file env ''photo1_'' (now env) p1 = Inl e \<longrightarrow>
      snd (save sch env rec p1 p2 w) = w
    \<and> saved_row sch env rec p1 p2 w = None
    \<and> (spreadsheet_fault w (sheet_id sch) = None
         \<and> sheets w (sheet_id sch) SHEET_NAME \<noteq> None
         \<and> folder_fault w FOLDER_ID = None
       \<longrightarrow> fst (save sch env rec p1 p2 w)
           = Inl (Error (''Failed to save Image 1: '' @ message e))))
   \<and> (p2 = JStr s \<and> trim s \<noteq> [] \<and> make_file env ''photo2_'' (now env) p2 = Inl e2 \<longrightarrow>
      (\<forall>row. saved_row sch env rec p1 p2 w = Some row
          \<longrightarrow> row ! 2 = JStr (''Error saving image 2: '' @ message e2))
    \<and> (\<forall>rows b1 url1 c.
          spreadsheet_fault w (sheet_id sch) = None
        \<and> sheets w (sheet_id sch) SHEET_NAME = Some rows
        \<and> folder_fault w FOLDER_ID = None
        \<and> make_file env ''photo1_'' (now env) p1 = Inr (b1, url1)
        \<and> computed_cells sch env rec = Inr c
        \<and> appendRow_fault env
             (row_of sch (now env) url1 (''Error saving image 2: '' @ message e2) rec c) = None
        \<longrightarrow> saved_row sch env rec p1 p2 w
            = Some (row_of sch (now env) url1 (''Error saving image 2: '' @ message e2) rec c)))"
proof (intro conjI impI allI)
  assume f: "make_file env ''photo1_'' (now env) p1 = Inl e"
  show "snd (save sch env rec p1 p2 w) = w" by (rule photo1_failure(1)[OF f])
  show "saved_row sch env rec p1 p2 w = None" by (rule photo1_failure(2)[OF f])
  assume "spreadsheet_fault w (sheet_id sch) = None
         \<and> sheets w (sheet_id sch) SHEET_NAME \<noteq> None
         \<and> folder_fault w FOLDER_ID = None"
  then show "fst (save sch env rec p1 p2 w)
           = Inl (Error (''Failed to save Image 1: '' @ message e))"
    using photo1_failure(3)[OF f] by blast
next
  fix row
  assume h: "p2 = JStr s \<and> trim s \<noteq> [] \<and> make_file env ''photo2_'' (now env) p2 = Inl e2"
    and saved_here: "saved_row sch env rec p1 p2 w = Some row"
  have cell: "photo2_cell env (now env) p2 = Inr (''Error saving image 2: '' @ message e2)"
    using h photo2_failure by blast
  from saved_rowD[OF saved_here] obtain url1 url2 link kp where
    "photo2_cell env (now env) p2 = Inr url2"
    and "row = row_of sch (now env) url1 url2 rec (link, kp)"
    by (metis surj_pair)
  with cell show "row ! 2 = JStr (''Error saving image 2: '' @ message e2)"
    by (simp add: row_of_cells)
next
  fix rows b1 url1 c
  assume h: "p2 = JStr s \<and> trim s \<noteq> [] \<and> make_file env ''photo2_'' (now env) p2 = Inl e2"
    and ok: "spreadsheet_fault w (sheet_id sch) = None
        \<and> sheets w (sheet_id sch) SHEET_NAME = Some rows
        \<and> folder_fault w FOLDER_ID = None
        \<and> make_file env ''photo1_'' (now env) p1 = Inr (b1, url1)
        \<and> computed_cells sch env rec = Inr c
        \<and> appendRow_fault env
             (row_of sch (now env) url1 (''Error saving image 2: '' @ message e2) rec c) = None"
  have cell: "photo2_cell env (now env) p2 = Inr (''Error saving image 2: '' @ message e2)"
    using h photo2_failure by blast
  show "saved_row sch env rec p1 p2 w
            = Some (row_of sch (now env) url1 (''Error saving image 2: '' @ message e2) rec c)"
    using ok by (intro saved_rowI[OF _ _ _ _ cell]) auto
qed

text \<open>
  On the concrete platform, where \<open>!!\<close> cannot be decoded: as first photo it makes
  the save raise and leave the world as it was; as second photo it leaves its
  diagnostic in the third cell of the appended row.
\<close>

lemma photo_failures_demo:
  "snd (save Legacy demo_env retail_card (JStr ''!!'') JUndefined demo_world) = demo_world
   \<and> fst (save Legacy demo_env retail_card (JStr ''!!'') JUndefined demo_world)
     = Inl (Error ''Failed to save Image 1: Could not decode string.'')
   \<and> saved_row Legacy demo_env retail_card (JStr ''aGk='') (JStr ''!!'') demo_world
     = Some second_photo_failed_row"
proof -
  have c: "computed_cells Legacy demo_env retail_card = Inr (JStr [], [])"
    by (simp add: retail_cells and_then_def)
  from photo_failures[of demo_env "JStr ''!!''" "Error ''Could not decode string.''" Legacy
      retail_card JUndefined demo_world]
  have first: "snd (save Legacy demo_env retail_card (JStr ''!!'') JUndefined demo_world)
        = demo_world
      \<and> fst (save Legacy demo_env retail_card (JStr ''!!'') JUndefined demo_world)
        = Inl (Error ''Failed to save Image 1: Could not decode string.'')"
    by (simp add: demo_make_file_bad demo_world_ok)
  from photo_failures[of demo_env "JStr ''aGk=''" _ Legacy retail_card "JStr ''!!''"
      demo_world "''!!''" "Error ''Could not decode string.''"]
  have "saved_row Legacy demo_env retail_card (JStr ''aGk='') (JStr ''!!'') demo_world
      = Some (row_of Legacy (now demo_env) demo_url1
                ''Error saving image 2: Could not decode string.'' retail_card (JStr [], []))"
    using demo_make_file1 c
    by (simp add: demo_make_file_bad trim_bangs demo_world_ok demo_env_simps)
  then have "saved_row Legacy demo_env retail_card (JStr ''aGk='') (JStr ''!!'') demo_world
      = Some second_photo_failed_row"
    by (simp add: second_photo_failed_row_def legacy_row_def retail_card_def or_empty_def
        js_or_def demo_env_simps)
  with first show ?thesis by simp
qed

section \<open>The claims\<close>

text \<open>
  C1, as the scripts have it. For each of the two layouts, a save that completes
  leaves the sheet as it was with one row more, and the row has as many cells as the
  layout has columns: 12 or 22. The cell of an optional string field is never
  \<open>undefined\<close> or \<open>null\<close>, and it is the empty string when the record has no
  value for the field (the field is absent, or its value is falsy). The one exception
  is the year of establishment in the layout of 22 columns: its cell is the empty
  string only when the record has no founding year either, and it is the founding year
  when \<open>established_year\<close> is without a value and \<open>founded_year\<close> has one.
\<close>

theorem saved_row_shape:
  assumes "saved_row sch env rec p1 p2 w = Some row"
  shows "sheet_rows (snd (save sch env rec p1 p2 w)) (sheet_id sch)
           = sheet_rows w (sheet_id sch) @ [row]
       \<and> length row = column_count sch
       \<and> (\<forall>(k, i) \<in> set (string_columns sch).
             row ! i \<noteq> JUndefined \<and> row ! i \<noteq> JNull
           \<and> (\<not> truthy (read_prop rec k)
               \<and> (k = ''established_year'' \<longrightarrow> \<not> truthy (read_prop rec ''founded_year''))
               \<longrightarrow> row ! i = JStr []))
       \<and> (sch = Extended \<and> \<not> truthy (read_prop rec ''established_year'')
            \<and> truthy (read_prop rec ''founded_year'')
          \<longrightarrow> row ! year_column = read_prop rec ''founded_year'')"
proof -
  from saved_rowD[OF assms] obtain url1 url2 link kp where
    c: "computed_cells sch env rec = Inr (link, kp)"
    and row: "row = row_of sch (now env) url1 url2 rec (link, kp)"
    and app: "sheet_rows (snd (save sch env rec p1 p2 w)) (sheet_id sch)
             = sheet_rows w (sheet_id sch) @ [row]"
    by (metis surj_pair)
  note vlc = validationLink_cases[OF computed_cells_link[OF c]]
  have len: "length row = column_count sch" by (simp add: row row_of_length)
  have cols: "\<forall>(k, i) \<in> set (string_columns sch).
             row ! i \<noteq> JUndefined \<and> row ! i \<noteq> JNull
           \<and> (\<not> truthy (read_prop rec k)
               \<and> (k = ''established_year'' \<longrightarrow> \<not> truthy (read_prop rec ''founded_year''))
               \<longrightarrow> row ! i = JStr [])"
  proof (cases sch)
    case Legacy
    then show ?thesis
      using vlc by (simp add: row legacy_row_def or_empty_cases)
  next
    case Extended
    then show ?thesis
      using vlc
      by (auto simp: row extended_row_def or_empty_cases js_or_def dest: truthy_defined)
  qed
  have yr: "sch = Extended \<and> \<not> truthy (read_prop rec ''established_year'')
            \<and> truthy (read_prop rec ''founded_year'')
          \<longrightarrow> row ! year_column = read_prop rec ''founded_year''"
    by (simp add: row extended_row_def year_column_def js_or_def)
  from app len cols yr show ?thesis by simp
qed

text \<open>
  The theorem at the record with a founding year only, saved on the concrete platform
  with one photo: one row of 22 cells, with the empty string for the absent industry.
\<close>

theorem saved_row_shape_witness:
  "sheet_rows (snd (save Extended demo_env founded_only (JStr ''aGk='') JUndefined demo_world))
     SHEET_ID = [founded_only_row]
   \<and> length founded_only_row = 22
   \<and> founded_only_row ! 4 = JStr []"
  using saved_row_shape[OF founded_only_saved]
  by (simp add: demo_sheet_rows founded_only_def)

text \<open>
  C1 as stated fails for the year of establishment: the record has no
  \<open>established_year\<close>, and the cell of that column (the fifteenth) is not the empty
  string but the founding year.
\<close>

theorem absent_year_cell_not_empty:
  "read_prop founded_only ''established_year'' = JUndefined
   \<and> saved_row Extended demo_env founded_only (JStr ''aGk='') JUndefined demo_world
       = Some founded_only_row
   \<and> founded_only_row ! 14 = JStr ''1999''"
  by (simp add: founded_only_saved) (simp add: founded_only_def founded_only_row_def)




text \<open>
  C3. The scripts mean a failure of the second photo not to be fatal, and for a second
  photo that is a string they do as the claim says. But they test
  \<open>photo2Base64.trim() !== ""\<close> before the \<open>try\<close> block: when the second photo is the
  number 5, which cannot be decoded, \<open>trim\<close> is not a function of it, and both scripts
  raise after the first photo is stored. No diagnostic is put in the third cell and no
  row is appended.
\<close>

theorem nonstring_photo2_loses_save:
  "base64Decode demo_env (JNum ''5'') = Inl (Error ''Could not decode string.'')
   \<and> saveData_legacy demo_env retail_card (JStr ''aGk='') (JNum ''5'') demo_world
     = (Inl (TypeError ''photo2Base64.trim is not a function''), photo1_stored)
   \<and> saveData demo_env retail_card (JStr ''aGk='') (JNum ''5'') demo_world
     = (Inl (TypeError ''photo2Base64.trim is not a function''), photo1_stored)
   \<and> sheet_rows photo1_stored SHEET_ID_legacy = []
   \<and> sheet_rows photo1_stored SHEET_ID = []"
proof -
  have t: "truthy (JNum ''5'')" by simp
  have j: "js_trim ''photo2Base64'' (JNum ''5'')
      = Inl (TypeError ''photo2Base64.trim is not a function'')"
    by (simp add: js_trim_def)
  have "save sch demo_env retail_card (JStr ''aGk='') (JNum ''5'') demo_world
      = (Inl (TypeError ''photo2Base64.trim is not a function''), photo1_stored)" for sch
    using save_raises_at_photo2[OF demo_world_ok demo_file1_made t j]
    by (simp add: photo1_stored_def)
  from this[of Legacy] this[of Extended] show ?thesis
    by (simp add: stored_sheet_rows) (simp add: demo_env_def)
qed

text \<open>
  C4. With the sheet accessible: when its data range has fewer than two rows the
  reader returns the empty list and raises nothing; otherwise, every row of values
  having its row of formulas and the headers having their keys, it returns one object
  for each row after the header row, in the order of the rows, and in each object the
  key of a header (the last, when headers repeat) holds the formula of the cell of
  that row under that header when the cell has one and its value otherwise, cell by
  cell.
\<close>

theorem read_all:
  assumes "spreadsheet_fault w SHEET_ID = None"
    and "sheets w SHEET_ID SHEET_NAME = Some rows"
    and "getValues env rows = values" and "getFormulas env rows = formulas"
  shows "(length values < 2 \<longrightarrow> getSheetData env w = Inr (JArr []))
       \<and> (2 \<le> length values \<and> length values \<le> length formulas
            \<and> map (to_str env) (values ! 0) = map Inr keys
          \<longrightarrow> (\<exists>data. getSheetData env w = Inr (JArr data)
                 \<and> length data = length values - 1
                 \<and> (\<forall>i<length data. \<forall>j<length keys.
                       keys ! j \<noteq> ''__proto__'' \<and> keys ! j \<notin> set (drop (Suc j) keys)
                       \<longrightarrow> read_prop (data ! i) (keys ! j)
                         = spec_cell (formula_text formulas (Suc i) j)
                             (js_nth (values ! Suc i) j))))"
proof (intro conjI impI)
  have s: "getSheetByName SHEET_ID w = Inr (Some rows)"
    using assms(1,2) by (simp add: getSheetByName_def)
  {
    assume "length values < 2"
    then show "getSheetData env w = Inr (JArr [])"
      using s assms(3) by (simp add: getSheetData_def and_then_def)
  }
  {
    assume h: "2 \<le> length values \<and> length values \<le> length formulas
            \<and> map (to_str env) (values ! 0) = map Inr keys"
    then have idx: "\<forall>i \<in> set [1..<length values]. i < length formulas" by auto
    from read_rows_ok[OF _ idx, of env "values ! 0" keys "values"] h
    obtain data where
      r: "read_rows env (values ! 0) values formulas [1..<length values] = Inr data"
      and len: "length data = length [1..<length values]"
      and cells: "\<forall>n<length [1..<length values]. \<forall>j<length keys.
                 keys ! j \<noteq> ''__proto__'' \<and> keys ! j \<notin> set (drop (Suc j) keys)
                 \<longrightarrow> read_prop (data ! n) (keys ! j)
                   = spec_cell (formula_text formulas ([1..<length values] ! n) j)
                       (js_nth (values ! ([1..<length values] ! n)) j)"
      by blast
    have g: "getSheetData env w = Inr (JArr data)"
      using s assms(3,4) h r by (simp add: getSheetData_def and_then_def)
    have "\<forall>i<length data. \<forall>j<length keys.
                       keys ! j \<noteq> ''__proto__'' \<and> keys ! j \<notin> set (drop (Suc j) keys)
                       \<longrightarrow> read_prop (data ! i) (keys ! j)
                         = spec_cell (formula_text formulas (Suc i) j)
                             (js_nth (values ! Suc i) j)"
      using cells len by auto
    with g len
    show "\<exists>data. getSheetData env w = Inr (JArr data)
                 \<and> length data = length values - 1
                 \<and> (\<forall>i<length data. \<forall>j<length keys.
                       keys ! j \<noteq> ''__proto__'' \<and> keys ! j \<notin> set (drop (Suc j) keys)
                       \<longrightarrow> read_prop (data ! i) (keys ! j)
                         = spec_cell (formula_text formulas (Suc i) j)
                             (js_nth (values ! Suc i) j))"
      by auto
  }
qed

text \<open>
  On the concrete platform: the empty sheet reads as the empty list; the sheet with
  two data rows reads as two objects, the first with the formula of its link and the
  value of its company.
\<close>

theorem read_all_witness:
  "getSheetData demo_env demo_world = Inr (JArr [])
   \<and> getSheetData demo_env demo_read_world = Inr (JArr demo_data)
   \<and> length demo_data = 2
   \<and> read_prop (demo_data ! 0) ''Validation Link'' = JStr acme_link
   \<and> read_prop (demo_data ! 0) ''Company'' = JStr ''Acme''"
proof -
  have v: "getValues demo_env [] = []" "getFormulas demo_env [] = []"
    by (simp_all add: demo_env_def)
  from read_all[OF demo_world_ok(1,2) v, of "[]"]
  have empty: "getSheetData demo_env demo_world = Inr (JArr [])" by simp
  have w: "spreadsheet_fault demo_read_world SHEET_ID = None"
    "sheets demo_read_world SHEET_ID SHEET_NAME = Some demo_sheet"
    by (simp_all add: demo_read_world_def)
  from read_all[OF w demo_values demo_formulas, of "[''Company'', ''Validation Link'']"]
  obtain data where "getSheetData demo_env demo_read_world = Inr (JArr data)"
    by auto
  with demo_read have "data = demo_data" by simp
  with empty demo_read show ?thesis
    by (simp add: demo_data_def)
qed

text \<open>
  C5, as the scripts have it. In the row of every save that completes, in both
  layouts, the cell of the validation flag is the value of \<open>is_validated\<close> as the
  record has it, whatever its type, with no coercion; when the record has no such
  field the cell is \<open>undefined\<close>: no empty string and no \<open>false\<close> stands in for it.
  On a platform that lets the save through, the save of a record whose other cells
  can be computed does complete, with that cell.
\<close>

theorem flag_cell_verbatim:
  "(platform_ready sch env p1 p2 w \<and> cells_computed sch env rec
    \<longrightarrow> (\<exists>row. saved_row sch env rec p1 p2 w = Some row
           \<and> row ! flag_column sch = read_prop rec ''is_validated''))
   \<and> (\<forall>row. saved_row sch env rec p1 p2 w = Some row \<longrightarrow>
         row ! flag_column sch = read_prop rec ''is_validated''
       \<and> (\<forall>ps. rec = JObj ps \<longrightarrow>
             (map_of ps ''is_validated'' = None \<longrightarrow> row ! flag_column sch = JUndefined)
           \<and> (\<forall>v. map_of ps ''is_validated'' = Some v \<longrightarrow> row ! flag_column sch = v)))"
proof -
  have every: "row ! flag_column sch = read_prop rec ''is_validated''"
    if s: "saved_row sch env rec p1 p2 w = Some row" for row
  proof -
    from saved_rowD[OF s] obtain url1 url2 link kp where
      "row = row_of sch (now env) url1 url2 rec (link, kp)"
      by (metis surj_pair)
    then show ?thesis by (simp add: row_of_cells)
  qed
  have some: "\<exists>row. saved_row sch env rec p1 p2 w = Some row
           \<and> row ! flag_column sch = read_prop rec ''is_validated''"
    if h: "platform_ready sch env p1 p2 w \<and> cells_computed sch env rec"
  proof -
    from cells_computedD h obtain link kp where
      c: "computed_cells sch env rec = Inr (link, kp)" by blast
    from save_completes[OF _ c] h obtain url1 url2 where
      "saved_row sch env rec p1 p2 w = Some (row_of sch (now env) url1 url2 rec (link, kp))"
      by blast
    then show ?thesis by (simp add: row_of_cells)
  qed
  from every some show ?thesis by auto
qed

text \<open>
  The card of the scenario of C2 on the concrete platform: the save completes, and
  the flag \<open>true\<close> arrives as the boolean \<open>true\<close>.
\<close>

theorem flag_cell_verbatim_witness:
  "saved_row Legacy demo_env acme_card (JStr ''aGk='') JUndefined demo_world = Some acme_row
   \<and> acme_row ! 8 = JBool True"
proof -
  have "cells_computed Legacy demo_env acme_card"
    using acme_saved by (auto simp: cells_computed_def dest!: saved_rowD)
  with demo_ready have h: "platform_ready Legacy demo_env (JStr ''aGk='') JUndefined demo_world
      \<and> cells_computed Legacy demo_env acme_card"
    by simp
  from flag_cell_verbatim[THEN conjunct1, THEN mp, OF h] obtain row where
    "saved_row Legacy demo_env acme_card (JStr ''aGk='') JUndefined demo_world = Some row"
    and "row ! flag_column Legacy = read_prop acme_card ''is_validated''"
    by blast
  with acme_saved show ?thesis by (simp add: acme_card_def)
qed

text \<open>
  C5 as stated fails for the absent flag: the card with a company, an industry and a
  name has no \<open>is_validated\<close>, its save completes, and the cell of the flag in its row
  is \<open>undefined\<close>, which is not the empty string.
\<close>

theorem absent_flag_cell_undefined:
  "read_prop retail_card ''is_validated'' = JUndefined
   \<and> saved_row Extended demo_env retail_card (JStr ''aGk='') JUndefined demo_world
     = Some retail_row
   \<and> retail_row ! 18 = JUndefined
   \<and> retail_row ! 18 \<noteq> JStr []"
  by (simp add: retail_saved) (simp add: retail_card_def retail_row_def)

text \<open>
  C6, as the scripts have it. For a validated record with a non-empty source URL, the
  validation cell embeds the URL and the label with every double quote doubled, also
  the quotes that already come in pairs: the embedded text has exactly twice as many
  double quotes as the text it is made from, and doubling a second time changes the
  text unless it has no double quote. The escaping is not idempotent.
\<close>

theorem every_quote_doubled:
  assumes "saved_row sch env rec p1 p2 w = Some row"
    and "truthy (read_prop rec ''is_validated'')"
    and "read_prop rec ''validation_source'' = JStr src" and "src \<noteq> []"
    and "text_of (read_prop rec ''company'') = Some company"
  shows "row ! link_column sch = JStr (spec_hyperlink src company)
       \<and> count_list (doubled src) dq = 2 * count_list src dq
       \<and> count_list (doubled company) dq = 2 * count_list company dq
       \<and> (doubled (doubled src) = doubled src \<longleftrightarrow> dq \<notin> set src)"
proof -
  from saved_rowD[OF assms(1)] obtain url1 url2 link kp where
    c: "computed_cells sch env rec = Inr (link, kp)"
    and row: "row = row_of sch (now env) url1 url2 rec (link, kp)"
    by (metis surj_pair)
  have vl: "validationLink rec = Inr link" by (rule computed_cells_link[OF c])
  have "text_of (read_prop rec ''validation_source'') = Some src" by (simp add: assms(3))
  from validationLink_formula[OF vl this assms(2,4,5)]
  have "row ! link_column sch = JStr (spec_hyperlink src company)"
    by (simp add: row row_of_cells)
  then show ?thesis by (simp add: doubled_count doubled_twice)
qed

text \<open>
  The theorem at the card whose URL has its quotes doubled already: four quotes are
  embedded for each pair.
\<close>

theorem every_quote_doubled_witness:
  "escaped_row ! 9 = JStr escaped_link
   \<and> count_list (doubled (''http://x.test/'' @ [dq, dq] @ ''a'' @ [dq, dq])) dq = 8"
  using every_quote_doubled[OF escaped_saved, of "''http://x.test/'' @ [dq, dq] @ ''a'' @ [dq, dq]" "[]"]
  by (simp add: escaped_card_def escaped_row_def dq_def)

text \<open>
  C6 as stated fails: the URL \<open>http://x.test/""a""\<close> has its quotes escaped
  already, and the cell embeds \<open>http://x.test/""""a""""\<close>, not the URL as it came.
\<close>

theorem escaped_quotes_escaped_again:
  "saved_row Legacy demo_env escaped_card (JStr ''aGk='') JUndefined demo_world
     = Some escaped_row
   \<and> escaped_row ! 9
     = JStr (''=HYPERLINK('' @ [dq] @ ''http://x.test/'' @ [dq, dq, dq, dq] @ ''a''
             @ [dq, dq, dq, dq] @ [dq] @ '', '' @ [dq] @ ''Source Link'' @ [dq] @ '')'')
   \<and> escaped_row ! 9
     \<noteq> JStr (''=HYPERLINK('' @ [dq] @ ''http://x.test/'' @ [dq, dq] @ ''a''
             @ [dq, dq] @ [dq] @ '', '' @ [dq] @ ''Source Link'' @ [dq] @ '')'')"
  by (simp add: escaped_saved) (simp add: escaped_row_def escaped_link_def)




text \<open>
  C8, as the script has it. The row of 22 cells holds the twelve legacy cells in their
  legacy order, at the columns 0, 1, 2, 3, 5, 7, 8, 11 and 18 to 21: they are the row
  that the script of 12 columns saves for the same request. The ten new cells, in the
  order industry, title, website, social media, services, company size, established
  year, registration status, trust score, key people, stand at the columns 4, 6, 9,
  10 and 12 to 17: all before the trailing group of validation flag, validation link,
  about and location, but not as one group, since industry, title, website and social
  media stand between legacy cells.
\<close>

theorem extended_row_layout:
  assumes "saved_row Extended env rec p1 p2 w = Some row"
    and "saved_row Legacy env rec p1 p2 w0 = Some legacy"
  shows "length row = 22
       \<and> map ((!) row) [0, 1, 2, 3, 5, 7, 8, 11, 18, 19, 20, 21] = legacy
       \<and> map ((!) row) [4, 6, 9, 10, 12, 13, 14, 15, 16, 17] = new_cells env rec
       \<and> drop 18 row = drop 8 legacy"
proof -
  from saved_rowD[OF assms(1)] obtain b1 url1 url2 link kp where
    m: "make_file env ''photo1_'' (now env) p1 = Inr (b1, url1)"
    and u: "photo2_cell env (now env) p2 = Inr url2"
    and c: "computed_cells Extended env rec = Inr (link, kp)"
    and row: "row = row_of Extended (now env) url1 url2 rec (link, kp)"
    by (metis surj_pair)
  from saved_rowD[OF assms(2)] obtain b1' url1' url2' link' kp' where
    m': "make_file env ''photo1_'' (now env) p1 = Inr (b1', url1')"
    and u': "photo2_cell env (now env) p2 = Inr url2'"
    and c': "computed_cells Legacy env rec = Inr (link', kp')"
    and legacy: "legacy = row_of Legacy (now env) url1' url2' rec (link', kp')"
    by (metis surj_pair)
  have same: "url1' = url1" "url2' = url2" "link' = link"
    using m m' u u' computed_cells_link[OF c] computed_cells_link[OF c'] by simp_all
  have kp: "keyPeopleString env rec = Inr kp" by (rule computed_cells_people[OF c])
  show ?thesis
    by (simp add: row legacy same extended_row_def legacy_row_def new_cells_def kp)
qed

text \<open>
  The theorem at the card with a company, an industry and a name: the industry is the
  fifth cell, between the company and the name.
\<close>

theorem extended_row_layout_witness:
  "map ((!) retail_row) [0, 1, 2, 3, 5, 7, 8, 11, 18, 19, 20, 21] = retail_legacy_row
   \<and> retail_row ! 3 = JStr ''Acme'' \<and> retail_row ! 4 = JStr ''Retail''
   \<and> retail_row ! 5 = JStr ''Jo''"
  using extended_row_layout[OF retail_saved retail_legacy_saved]
  by (simp add: retail_row_def retail_legacy_row_def)

text \<open>
  C8 as stated fails: with the ten new cells inserted as one group before the
  trailing group, the fifth cell of the row would be the name; the script has the
  industry there, and the name in the sixth.
\<close>

theorem new_columns_not_one_group:
  "saved_row Extended demo_env retail_card (JStr ''aGk='') JUndefined demo_world
     = Some retail_row
   \<and> saved_row Legacy demo_env retail_card (JStr ''aGk='') JUndefined demo_world
     = Some retail_legacy_row
   \<and> retail_row \<noteq> spec_grouped_row retail_legacy_row (new_cells demo_env retail_card)
   \<and> spec_grouped_row retail_legacy_row (new_cells demo_env retail_card) ! 4 = JStr ''Jo''
   \<and> retail_row ! 4 = JStr ''Retail''"
  by (simp add: retail_saved retail_legacy_saved)
     (simp add: retail_row_def retail_legacy_row_def spec_grouped_row_def new_cells_def
        retail_cells retail_card_def or_empty_def js_or_def)






end
